theory Spec2Isabelle
  imports Complex_Main "HOL-Library.Log_Nat" "HOL-Library.Code_Target_Numeral"
begin

section \<open>JavaScript values used by script.js\<close>

text \<open>
  A JavaScript number is an IEEE double. The model keeps its three kinds of value apart:
  a finite value, carried as the real number it denotes, the not-a-number sentinel, and
  the two infinities. Every sum, product and quotient of finite values, and every
  numeric literal, is rounded to the nearest double (ties to the even significand) and
  overflows to an infinity, as the language does; only the sign of zero is not modelled
  (the script never divides by zero and never looks at the sign). The comparisons follow
  the language on these kinds, so that every place where the script can meet \<open>NaN\<close>,
  an infinity or \<open>undefined\<close> is a branch of the model.
\<close>

datatype number = Num real | NaN | PInf | NInf

fun isFinite :: "number \<Rightarrow> bool" where
  "isFinite (Num x) = True"
| "isFinite NaN = False"
| "isFinite PInf = False"
| "isFinite NInf = False"

text \<open>The finite value of a number (0 for the three values that have none).\<close>

fun real_of :: "number \<Rightarrow> real" where
  "real_of (Num x) = x"
| "real_of NaN = 0"
| "real_of PInf = 0"
| "real_of NInf = 0"

subsection \<open>Rounding to double precision\<close>

text \<open>
  The integer nearest to a real, the even one of the two when the real lies half-way
  between them.
\<close>

definition round_even :: "real \<Rightarrow> int" where
  "round_even r =
     (let f = \<lfloor>r\<rfloor> in
      if r - of_int f < 1 / 2 then f
      else if 1 / 2 < r - of_int f then f + 1
      else if even f then f else f + 1)"

text \<open>The binary exponent of a positive real \<open>a\<close>: the \<open>e\<close> with \<open>2^e \<le> a < 2^(e+1)\<close>.\<close>

definition expo :: "real \<Rightarrow> int" where
  "expo a = (if 1 \<le> a then bitlen \<lfloor>a\<rfloor> - 1 else - bitlen (\<lceil>1 / a\<rceil> - 1))"

text \<open>
  The spacing of the doubles around a positive real: 52 binary places below its
  exponent, and \<open>2^-1074\<close> throughout the subnormal range.
\<close>

definition quantum :: "real \<Rightarrow> real" where
  "quantum a = 2 powi (max (expo a) (- 1022) - 52)"

definition round_pos :: "real \<Rightarrow> real" where
  "round_pos a = of_int (round_even (a / quantum a)) * quantum a"

text \<open>The real rounded to 53 significant bits, before the check for overflow.\<close>

definition round_double :: "real \<Rightarrow> real" where
  "round_double x =
     (if x = 0 then 0 else if 0 < x then round_pos x else - round_pos (- x))"

text \<open>The double nearest to a real: a result of magnitude \<open>2^1024\<close> is an infinity.\<close>

definition to_double :: "real \<Rightarrow> number" where
  "to_double x =
     (let y = round_double x in
      if 2 ^ 1024 \<le> y then PInf else if y \<le> - (2 ^ 1024) then NInf else Num y)"

subsection \<open>Arithmetic and comparison\<close>

text \<open>\<open>a + b\<close>.\<close>

fun num_add :: "number \<Rightarrow> number \<Rightarrow> number" where
  "num_add (Num a) (Num b) = to_double (a + b)"
| "num_add NaN b = NaN"
| "num_add a NaN = NaN"
| "num_add PInf NInf = NaN"
| "num_add NInf PInf = NaN"
| "num_add PInf b = PInf"
| "num_add NInf b = NInf"
| "num_add a PInf = PInf"
| "num_add a NInf = NInf"

text \<open>\<open>-a\<close> and \<open>a - b\<close>.\<close>

fun num_neg :: "number \<Rightarrow> number" where
  "num_neg (Num a) = Num (- a)"
| "num_neg NaN = NaN"
| "num_neg PInf = NInf"
| "num_neg NInf = PInf"

definition num_sub :: "number \<Rightarrow> number \<Rightarrow> number" where
  "num_sub a b = num_add a (num_neg b)"

text \<open>The sign of a number that is not NaN: -1, 0 or 1.\<close>

fun num_sign :: "number \<Rightarrow> int" where
  "num_sign (Num a) = (if a < 0 then - 1 else if a = 0 then 0 else 1)"
| "num_sign NaN = 0"
| "num_sign PInf = 1"
| "num_sign NInf = - 1"

definition signed_inf :: "int \<Rightarrow> number" where
  "signed_inf s = (if s < 0 then NInf else PInf)"

text \<open>\<open>a * b\<close>: an infinity times zero is NaN.\<close>

fun num_mul :: "number \<Rightarrow> number \<Rightarrow> number" where
  "num_mul (Num a) (Num b) = to_double (a * b)"
| "num_mul NaN b = NaN"
| "num_mul a NaN = NaN"
| "num_mul a b =
     (if num_sign a * num_sign b = 0 then NaN else signed_inf (num_sign a * num_sign b))"

text \<open>
  \<open>a / b\<close>. A finite value divided by zero is an infinity of the dividend's sign (the
  zero taken as positive), zero by zero and infinity by infinity are NaN.
\<close>

fun num_div :: "number \<Rightarrow> number \<Rightarrow> number" where
  "num_div (Num a) (Num b) =
     (if b = 0 then (if a = 0 then NaN else signed_inf (num_sign (Num a)))
      else to_double (a / b))"
| "num_div NaN b = NaN"
| "num_div a NaN = NaN"
| "num_div (Num a) b = Num 0"
| "num_div a (Num b) = signed_inf (num_sign a * (if b < 0 then - 1 else 1))"
| "num_div a b = NaN"

text \<open>\<open>a < b\<close>, \<open>a > b\<close>, \<open>a <= b\<close>, \<open>a >= b\<close> and \<open>a === b\<close>: false when either side is NaN.\<close>

fun num_lt :: "number \<Rightarrow> number \<Rightarrow> bool" where
  "num_lt NaN b = False"
| "num_lt a NaN = False"
| "num_lt (Num a) (Num b) = (a < b)"
| "num_lt PInf b = False"
| "num_lt a PInf = True"
| "num_lt a NInf = False"
| "num_lt NInf b = True"

definition num_gt :: "number \<Rightarrow> number \<Rightarrow> bool" where
  "num_gt a b = num_lt b a"

fun num_eq :: "number \<Rightarrow> number \<Rightarrow> bool" where
  "num_eq NaN b = False"
| "num_eq a NaN = False"
| "num_eq a b = (a = b)"

definition num_le :: "number \<Rightarrow> number \<Rightarrow> bool" where
  "num_le a b = (num_lt a b \<or> num_eq a b)"

definition num_ge :: "number \<Rightarrow> number \<Rightarrow> bool" where
  "num_ge a b = num_le b a"

text \<open>The truth value of a number in a condition or under \<open>||\<close>: 0 and NaN are falsy.\<close>

fun num_truthy :: "number \<Rightarrow> bool" where
  "num_truthy (Num a) = (a \<noteq> 0)"
| "num_truthy NaN = False"
| "num_truthy a = True"

subsection \<open>Strings\<close>

text \<open>
  Strings are lists of 8-bit characters. \<open>toUpperCase\<close> and \<open>trim\<close> are modelled on
  ASCII: the letters a to z are raised, and the white space removed is the tab, line
  feed, vertical tab, form feed, carriage return and space.
\<close>

definition is_lower :: "char \<Rightarrow> bool" where
  "is_lower c = (c \<in> set ''abcdefghijklmnopqrstuvwxyz'')"

definition upper_char :: "char \<Rightarrow> char" where
  "upper_char c =
     (case map_of (zip ''abcdefghijklmnopqrstuvwxyz'' ''ABCDEFGHIJKLMNOPQRSTUVWXYZ'') c of
        Some u \<Rightarrow> u
      | None \<Rightarrow> c)"

definition toUpperCase :: "string \<Rightarrow> string" where
  "toUpperCase s = map upper_char s"

definition is_space :: "char \<Rightarrow> bool" where
  "is_space c = (c \<in> set [CHR 0x09, CHR 0x0A, CHR 0x0B, CHR 0x0C, CHR 0x0D, CHR '' ''])"

definition trim :: "string \<Rightarrow> string" where
  "trim s = rev (dropWhile is_space (rev (dropWhile is_space s)))"

subsection \<open>Insertion-ordered maps\<close>

text \<open>
  A JavaScript \<open>Map\<close> iterates its keys in the order of their first insertion, and the
  startup code reads the first key, so the map is an association list in insertion
  order: \<open>set\<close> replaces the value of a key in place and appends a new key at the end.
\<close>

type_synonym ('k, 'v) jsmap = "('k \<times> 'v) list"

definition Map_get :: "('k, 'v) jsmap \<Rightarrow> 'k \<Rightarrow> 'v option" where
  "Map_get m k = map_of m k"

definition Map_has :: "('k, 'v) jsmap \<Rightarrow> 'k \<Rightarrow> bool" where
  "Map_has m k = (map_of m k \<noteq> None)"

fun Map_set :: "('k, 'v) jsmap \<Rightarrow> 'k \<Rightarrow> 'v \<Rightarrow> ('k, 'v) jsmap" where
  "Map_set [] k v = [(k, v)]"
| "Map_set ((k', v') # m) k v = (if k' = k then (k, v) # m else (k', v') # Map_set m k v)"

definition Map_keys :: "('k, 'v) jsmap \<Rightarrow> 'k list" where
  "Map_keys m = map fst m"

definition Map_values :: "('k, 'v) jsmap \<Rightarrow> 'v list" where
  "Map_values m = map snd m"

section \<open>The aggregator\<close>

text \<open>
  One parsed row of the CSV. \<open>state\<close> and \<open>year_month\<close> are strings, or \<open>undefined\<close>
  (\<open>None\<close>) when the file has no such column.
\<close>

record AccidentRecord =
  state :: "string option"
  year_month :: "string option"
  year :: number
  count_accidents :: number
  avg_severity :: number

text \<open>
  The entry object of the summary map: while the rows are folded it holds \<open>totalCount\<close>
  and \<open>weightedSeverity\<close>; the closing pass adds \<open>avgSeverity\<close> and deletes
  \<open>weightedSeverity\<close>.
\<close>

record Entry =
  totalCount :: number

record Accum = Entry +
  weightedSeverity :: number

record StateSummary = Entry +
  avgSeverity :: number

text \<open>\<open>(d.state || "").toUpperCase()\<close>: an undefined or empty state gives the empty code.\<close>

definition code_of :: "AccidentRecord \<Rightarrow> string" where
  "code_of d = toUpperCase (case state d of None \<Rightarrow> [] | Some s \<Rightarrow> s)"

text \<open>The body of the \<open>data.forEach\<close> callback of \<open>buildStateSummary\<close>.\<close>

definition accumulate :: "(string, Accum) jsmap \<Rightarrow> AccidentRecord \<Rightarrow> (string, Accum) jsmap" where
  "accumulate summary d =
     (let code = code_of d in
      if code = [] then summary
      else
        let entry = (case Map_get summary code of
                       Some e \<Rightarrow> e
                     | None \<Rightarrow> \<lparr>totalCount = Num 0, weightedSeverity = Num 0\<rparr>);
            entry1 = entry\<lparr>totalCount := num_add (totalCount entry) (count_accidents d)\<rparr>;
            entry2 = entry1\<lparr>weightedSeverity :=
                       num_add (weightedSeverity entry1)
                         (num_mul (avg_severity d) (count_accidents d))\<rparr>
        in Map_set summary code entry2)"

text \<open>The body of the \<open>summary.forEach\<close> callback: the entry after the closing pass.\<close>

definition finish :: "Accum \<Rightarrow> StateSummary" where
  "finish entry =
     \<lparr>totalCount = totalCount entry,
      avgSeverity =
        (if num_gt (totalCount entry) (Num 0)
         then num_div (weightedSeverity entry) (totalCount entry) else Num 0)\<rparr>"

definition buildStateSummary :: "AccidentRecord list \<Rightarrow> (string, StateSummary) jsmap" where
  "buildStateSummary data = map (\<lambda>(code, entry). (code, finish entry)) (foldl accumulate [] data)"

section \<open>The data loader\<close>

text \<open>
  The unary plus of the row parser applied to a CSV field: \<open>undefined\<close> (a column the
  file does not have) is NaN; a string is read by the language's string-to-number rule.
  White space around the literal is dropped and the empty string is 0; the literal is a
  binary, octal or hexadecimal integer (\<open>0b\<close>, \<open>0o\<close>, \<open>0x\<close>, unsigned), or an optionally
  signed \<open>Infinity\<close> or decimal literal (digits with an optional fraction and an
  optional exponent), rounded to the nearest double; every other string is NaN.
\<close>

definition digit_of :: "char \<Rightarrow> nat option" where
  "digit_of c =
     map_of (zip ''0123456789abcdefABCDEF''
       [0, 1, 2, 3, 4, 5, 6, 7, 8, 9, 10, 11, 12, 13, 14, 15, 10, 11, 12, 13, 14, 15]) c"

definition is_digit :: "nat \<Rightarrow> char \<Rightarrow> bool" where
  "is_digit base c = (case digit_of c of Some v \<Rightarrow> v < base | None \<Rightarrow> False)"

definition digits_value :: "nat \<Rightarrow> string \<Rightarrow> nat" where
  "digits_value base ds = foldl (\<lambda>n c. base * n + (case digit_of c of Some v \<Rightarrow> v | None \<Rightarrow> 0)) 0 ds"

text \<open>An integer literal in the given base: one or more digits and nothing else.\<close>

definition based_literal :: "nat \<Rightarrow> string \<Rightarrow> number" where
  "based_literal base ds =
     (if ds \<noteq> [] \<and> list_all (is_digit base) ds
      then to_double (real (digits_value base ds)) else NaN)"

text \<open>The exponent part after the mantissa: absent, or \<open>e\<close> or \<open>E\<close>, a sign, digits.\<close>

definition exponent_part :: "string \<Rightarrow> int option" where
  "exponent_part s =
     (case s of
        [] \<Rightarrow> Some 0
      | c # t \<Rightarrow>
          if c = CHR ''e'' \<or> c = CHR ''E'' then
            (let (neg, ds) = (case t of
                               [] \<Rightarrow> (False, [])
                             | c' # t' \<Rightarrow>
                                 if c' = CHR ''-'' then (True, t')
                                 else if c' = CHR ''+'' then (False, t') else (False, t))
             in if ds \<noteq> [] \<and> list_all (is_digit 10) ds
                then Some (if neg then - int (digits_value 10 ds) else int (digits_value 10 ds))
                else None)
          else None)"

text \<open>An unsigned decimal literal: \<open>12\<close>, \<open>12.\<close>, \<open>12.5\<close>, \<open>.5\<close>, each with an optional exponent.\<close>

definition decimal_literal :: "string \<Rightarrow> number" where
  "decimal_literal s =
     (let ip = takeWhile (is_digit 10) s;
          r1 = dropWhile (is_digit 10) s;
          fp = (case r1 of
                  [] \<Rightarrow> []
                | c # t \<Rightarrow> if c = CHR ''.'' then takeWhile (is_digit 10) t else []);
          r2 = (case r1 of
                  [] \<Rightarrow> []
                | c # t \<Rightarrow> if c = CHR ''.'' then dropWhile (is_digit 10) t else r1)
      in if ip = [] \<and> fp = [] then NaN
         else
           (case exponent_part r2 of
              None \<Rightarrow> NaN
            | Some e \<Rightarrow>
                to_double ((real (digits_value 10 ip)
                            + real (digits_value 10 fp) / 10 ^ length fp) * 10 powi e)))"

definition signed_literal :: "string \<Rightarrow> number" where
  "signed_literal s =
     (if s = ''Infinity'' then PInf else decimal_literal s)"

definition string_to_number :: "string \<Rightarrow> number" where
  "string_to_number s =
     (let t = trim s in
      case t of
        [] \<Rightarrow> Num 0
      | c # r \<Rightarrow>
          if c = CHR ''+'' then signed_literal r
          else if c = CHR ''-'' then num_neg (signed_literal r)
          else if take 2 t \<in> set [''0x'', ''0X''] then based_literal 16 (drop 2 t)
          else if take 2 t \<in> set [''0o'', ''0O''] then based_literal 8 (drop 2 t)
          else if take 2 t \<in> set [''0b'', ''0B''] then based_literal 2 (drop 2 t)
          else signed_literal t)"

definition to_number :: "string option \<Rightarrow> number" where
  "to_number v = (case v of None \<Rightarrow> NaN | Some s \<Rightarrow> string_to_number s)"

text \<open>
  A row object as \<open>d3.csv\<close> hands it to the row parser: each column of the header mapped
  to the field's text.
\<close>

type_synonym csv_row = "string \<rightharpoonup> string"

definition stateMonthParserFn :: "csv_row \<Rightarrow> AccidentRecord" where
  "stateMonthParserFn d =
     \<lparr>state = d ''state'',
      year_month = d ''year_month'',
      year = to_number (d ''year''),
      count_accidents = to_number (d ''count_accidents''),
      avg_severity = to_number (d ''avg_severity'')\<rparr>"

text \<open>
  The value of each property of the object the row parser returns, in the order of the
  object literal, with the type the language gives it.
\<close>

datatype jsvalue = Undefined | String string | Number number

definition string_or_undefined :: "string option \<Rightarrow> jsvalue" where
  "string_or_undefined v = (case v of None \<Rightarrow> Undefined | Some s \<Rightarrow> String s)"

definition own_properties :: "AccidentRecord \<Rightarrow> (string \<times> jsvalue) list" where
  "own_properties r =
     [(''state'', string_or_undefined (state r)),
      (''year_month'', string_or_undefined (year_month r)),
      (''year'', Number (year r)),
      (''count_accidents'', Number (count_accidents r)),
      (''avg_severity'', Number (avg_severity r))]"

fun is_Number :: "jsvalue \<Rightarrow> bool" where
  "is_Number (Number n) = True"
| "is_Number v = False"

fun is_String :: "jsvalue \<Rightarrow> bool" where
  "is_String (String s) = True"
| "is_String v = False"

section \<open>The map renderer\<close>

subsection \<open>Features and the page state\<close>

text \<open>
  A GeoJSON feature, reduced to its properties bag (\<open>None\<close> when \<open>properties\<close> is null
  or missing). A property value is JSON: the extraction of the state code only asks
  whether it is a string.
\<close>

datatype json = JNull | JBool bool | JNum number | JStr string | JComposite

record feature =
  properties :: "(string \<rightharpoonup> json) option"

text \<open>\<open>typeof c === "string" && c.trim().length\<close>, for a candidate that may be undefined.\<close>

definition is_code_candidate :: "json option \<Rightarrow> bool" where
  "is_code_candidate c = (case c of Some (JStr s) \<Rightarrow> length (trim s) \<noteq> 0 | _ \<Rightarrow> False)"

definition extractStateCode :: "feature \<Rightarrow> string" where
  "extractStateCode f =
     (let props = (case properties f of None \<Rightarrow> Map.empty | Some p \<Rightarrow> p);
          candidates =
            [props ''STUSPS'', props ''STUSPS10'', props ''state_code'', props ''STATE'',
             props ''CODE'', props ''code'', props ''postal'', props ''postalCode'']
      in trim (case List.find is_code_candidate candidates of
                 Some (Some (JStr s)) \<Rightarrow> s
               | _ \<Rightarrow> []))"

text \<open>
  One \<open>path.state\<close> element of the map: the feature bound to it and whether it carries
  the class \<open>selected\<close>.
\<close>

record path_elem =
  datum :: feature
  selected :: bool

datatype interpolator = interpolateReds | interpolateBlues

text \<open>A sequential scale of d3: its interpolator and its domain \<open>[low, high]\<close>.\<close>

record ColorScale =
  interpolate :: interpolator
  domain :: "number \<times> number"

text \<open>The text \<open>d3.format(specifier)(n)\<close>: the formatter of d3 is not part of the script.\<close>

datatype formatted = Format string number

text \<open>
  The module's variables and the part of the page they show: \<open>legendRange\<close> is the pair
  \<open>(min, max)\<close>; \<open>colorScale\<close> is \<open>None\<close> until the first scale is built; \<open>paths\<close> are the
  polygons of the map in the order of the features; the last six fields are the texts
  and the style of the description and legend elements.
\<close>

record globals =
  stateMonthData :: "AccidentRecord list"
  usStates :: "feature list"
  stateSummary :: "(string, StateSummary) jsmap"
  selectedState :: string
  currentMetric :: string
  legendRange :: "number \<times> number"
  colorScale :: "ColorScale option"
  paths :: "path_elem list"
  metric_description :: string
  legend_label_low :: string
  legend_label_high :: string
  legend_gradient :: string
  legend_min :: "formatted option"
  legend_max :: "formatted option"

definition initial_globals :: globals where
  "initial_globals =
     \<lparr>stateMonthData = [], usStates = [], stateSummary = [], selectedState = ''CA'',
      currentMetric = ''count'', legendRange = (Num 0, Num 1), colorScale = None,
      paths = [], metric_description = [], legend_label_low = [], legend_label_high = [],
      legend_gradient = [], legend_min = None, legend_max = None\<rparr>"

subsection \<open>The colour scale and the legend\<close>

text \<open>
  \<open>d3.extent\<close> over numbers: the first value that compares to itself starts the pair,
  each later value lowers the minimum or raises the maximum; \<open>None\<close> is the pair of two
  \<open>undefined\<close> it returns when no value qualifies.
\<close>

fun extent_step :: "(number \<times> number) option \<Rightarrow> number \<Rightarrow> (number \<times> number) option" where
  "extent_step None v = (if num_ge v v then Some (v, v) else None)"
| "extent_step (Some (mn, mx)) v =
     Some (if num_gt mn v then v else mn, if num_lt mx v then v else mx)"

definition extent :: "number list \<Rightarrow> (number \<times> number) option" where
  "extent vs = foldl extent_step None vs"

text \<open>\<open>Number.isFinite(x) ? x : d\<close>, for an \<open>x\<close> that may be undefined.\<close>

definition finite_or :: "number option \<Rightarrow> number \<Rightarrow> number" where
  "finite_or x d = (case x of None \<Rightarrow> d | Some v \<Rightarrow> if isFinite v then v else d)"

text \<open>\<open>d.avgSeverity || 0\<close>.\<close>

definition or_zero :: "number \<Rightarrow> number" where
  "or_zero v = (if num_truthy v then v else Num 0)"

definition updateColorScale :: "globals \<Rightarrow> globals" where
  "updateColorScale g =
     (if currentMetric g = ''count'' then
        (let counts = map totalCount (Map_values (stateSummary g));
             raw = extent counts;
             minCount = finite_or (map_option fst raw) (Num 0);
             maxCount = finite_or (map_option snd raw) (Num 1);
             domainMax = (if num_eq maxCount minCount then num_add minCount (Num 1) else maxCount)
         in g\<lparr>colorScale := Some \<lparr>interpolate = interpolateReds, domain = (minCount, domainMax)\<rparr>,
              legendRange := (minCount, maxCount)\<rparr>)
      else
        (let severities = map (\<lambda>d. or_zero (avgSeverity d)) (Map_values (stateSummary g));
             raw = extent severities;
             minSev = finite_or (map_option fst raw) (Num 0);
             maxSev = finite_or (map_option snd raw) (Num 1);
             padding = to_double (5 / 100);
             domainMin = num_sub minSev padding;
             domainMax0 = num_add maxSev padding;
             domainMax = (if num_le domainMax0 domainMin then num_add domainMin (to_double (1 / 10))
                          else domainMax0)
         in g\<lparr>colorScale := Some \<lparr>interpolate = interpolateBlues, domain = (domainMin, domainMax)\<rparr>,
              legendRange := (minSev, maxSev)\<rparr>))"

definition updateLegend :: "globals \<Rightarrow> globals" where
  "updateLegend g =
     (let isCount = (currentMetric g = ''count'');
          lowLabel = (if isCount then ''Low accidents'' else ''Lower severity'');
          highLabel = (if isCount then ''High accidents'' else ''Higher severity'');
          minVal = fst (legendRange g);
          maxVal = snd (legendRange g)
      in g\<lparr>legend_label_low := lowLabel,
           legend_label_high := highLabel,
           legend_gradient :=
             (if isCount then ''linear-gradient(90deg, #fee2e2, #b91c1c)''
              else ''linear-gradient(90deg, #e0f2fe, #1d4ed8)''),
           legend_min := Some (if isCount then Format '','' minVal else Format ''.2f'' minVal),
           legend_max := Some (if isCount then Format '','' maxVal else Format ''.2f'' maxVal)\<rparr>)"

definition getMetricValue :: "globals \<Rightarrow> string option \<Rightarrow> number" where
  "getMetricValue g stateCode =
     (case Map_get (stateSummary g)
             (toUpperCase (case stateCode of None \<Rightarrow> [] | Some c \<Rightarrow> c)) of
        None \<Rightarrow> Num 0
      | Some stats \<Rightarrow> if currentMetric g = ''count'' then totalCount stats else avgSeverity stats)"

definition updateMetricDescription :: "string \<Rightarrow> globals \<Rightarrow> globals" where
  "updateMetricDescription metric g =
     g\<lparr>metric_description :=
         (if metric = ''count''
          then ''Total number of reported accidents in each state between 2016 and 2023.''
          else ''Average severity of accidents in each state (1 = minor, 4 = most severe).'')\<rparr>"

text \<open>
  \<open>updateMapColors\<close> rebuilds the scale and the legend; the fill it then sets on each
  path is a colour of d3's interpolator and is not modelled.
\<close>

definition updateMapColors :: "globals \<Rightarrow> globals" where
  "updateMapColors g = updateLegend (updateColorScale g)"

subsection \<open>Startup and the event handlers\<close>

text \<open>
  \<open>initMap\<close>: the scale and the legend, one path for each feature, then the class
  \<open>selected\<close> on every path whose code is the selected state.
\<close>

definition initMap :: "globals \<Rightarrow> globals" where
  "initMap g =
     (let g1 = updateLegend (updateColorScale g);
          g2 = g1\<lparr>paths := map (\<lambda>d. \<lparr>datum = d, selected = False\<rparr>) (usStates g1)\<rparr>
      in g2\<lparr>paths :=
              map (\<lambda>p. if extractStateCode (datum p) = selectedState g2
                        then p\<lparr>selected := True\<rparr> else p) (paths g2)\<rparr>)"

text \<open>
  The handler that runs when both files are loaded. \<open>firstKey\<close> is undefined (\<open>None\<close>)
  for an empty map, and \<open>firstKey || "CA"\<close> replaces an undefined or empty key.
\<close>

definition on_loaded :: "AccidentRecord list \<Rightarrow> feature list \<Rightarrow> globals \<Rightarrow> globals" where
  "on_loaded stateMonth statesGeo g =
     (let g1 = g\<lparr>stateMonthData := stateMonth, usStates := statesGeo\<rparr>;
          g2 = g1\<lparr>stateSummary := buildStateSummary (stateMonthData g1)\<rparr>;
          g3 = (if \<not> Map_has (stateSummary g2) (selectedState g2) then
                  (let firstKey = (case Map_keys (stateSummary g2) of
                                     [] \<Rightarrow> None
                                   | k # ks \<Rightarrow> Some k)
                   in g2\<lparr>selectedState :=
                          (case firstKey of
                             None \<Rightarrow> ''CA''
                           | Some k \<Rightarrow> if k \<noteq> [] then k else ''CA'')\<rparr>)
                else g2)
      in initMap (updateMetricDescription (currentMetric g3) g3))"

text \<open>The page after loading the rows and the features into a fresh module.\<close>

definition startup :: "csv_row list \<Rightarrow> feature list \<Rightarrow> globals" where
  "startup rows statesGeo = on_loaded (map stateMonthParserFn rows) statesGeo initial_globals"

text \<open>The \<open>change\<close> handler of the metric selector; the argument is \<open>event.target.value\<close>.\<close>

definition on_metric_change :: "string \<Rightarrow> globals \<Rightarrow> globals" where
  "on_metric_change v g =
     updateMapColors (updateMetricDescription v (g\<lparr>currentMetric := v\<rparr>))"

text \<open>
  The \<open>click\<close> handler of the path with index \<open>this\<close>; the event's datum is the feature
  bound to that path. It clears the class \<open>selected\<close> on all paths and sets it on the
  clicked one.
\<close>

definition on_click :: "nat \<Rightarrow> globals \<Rightarrow> globals" where
  "on_click this g =
     (let code = extractStateCode (datum (paths g ! this)) in
      if code = [] then g
      else
        (let g1 = g\<lparr>selectedState := code\<rparr>;
             g2 = g1\<lparr>paths := map (\<lambda>p. p\<lparr>selected := False\<rparr>) (paths g1)\<rparr>
         in g2\<lparr>paths := (paths g2)[this := (paths g2 ! this)\<lparr>selected := True\<rparr>]\<rparr>))"

section \<open>Notions of the specification\<close>

text \<open>
  The records of one state are those whose normalised code is the state's key, in the
  order of the input.
\<close>

definition records_of :: "string \<Rightarrow> AccidentRecord list \<Rightarrow> AccidentRecord list" where
  "records_of code data = filter (\<lambda>d. code_of d = code) data"

text \<open>
  The sum of a list of numbers in double arithmetic, taken from the left and starting
  at 0, and the product \<open>avg_severity * count_accidents\<close> of a record.
\<close>

definition double_sum :: "number list \<Rightarrow> number" where
  "double_sum ns = foldl num_add (Num 0) ns"

definition weighted_term :: "AccidentRecord \<Rightarrow> number" where
  "weighted_term d = num_mul (avg_severity d) (count_accidents d)"

text \<open>The exact sum of the counts of a list of records.\<close>

definition sum_counts :: "AccidentRecord list \<Rightarrow> real" where
  "sum_counts ds = sum_list (map (\<lambda>d. real_of (count_accidents d)) ds)"

text \<open>A number that is a non-negative integer.\<close>

definition is_count :: "number \<Rightarrow> bool" where
  "is_count n = (isFinite n \<and> 0 \<le> real_of n \<and> of_int \<lfloor>real_of n\<rfloor> = real_of n)"

text \<open>
  A record of the data model: its count is a non-negative integer and its severity is a
  finite number from 1 to 4.
\<close>

definition ranged_record :: "AccidentRecord \<Rightarrow> bool" where
  "ranged_record d =
     (is_count (count_accidents d) \<and> isFinite (avg_severity d)
      \<and> 1 \<le> real_of (avg_severity d) \<and> real_of (avg_severity d) \<le> 4)"

text \<open>What the fold of \<open>buildStateSummary\<close> has accumulated for a code.\<close>

definition acc_of :: "string \<Rightarrow> AccidentRecord list \<Rightarrow> Accum" where
  "acc_of code data =
     \<lparr>totalCount = double_sum (map count_accidents (records_of code data)),
      weightedSeverity = double_sum (map weighted_term (records_of code data))\<rparr>"

text \<open>A string without a lower-case letter.\<close>

definition is_upper_string :: "string \<Rightarrow> bool" where
  "is_upper_string s = list_all (\<lambda>c. \<not> is_lower c) s"

text \<open>A record with its state code raised to upper case.\<close>

definition raise_state :: "AccidentRecord \<Rightarrow> AccidentRecord" where
  "raise_state d = d\<lparr>state := map_option toUpperCase (state d)\<rparr>"

text \<open>A record whose state code is missing or empty.\<close>

definition no_state :: "AccidentRecord \<Rightarrow> bool" where
  "no_state d = (state d = None \<or> state d = Some [])"


text \<open>An entry of the summary whose total is an integer from 0 to below \<open>2^53\<close>.\<close>

definition small_total :: "StateSummary \<Rightarrow> bool" where
  "small_total s = (is_count (totalCount s) \<and> real_of (totalCount s) < 2 ^ 53)"

text \<open>
  The domain the severity scale is specified to have for the extent \<open>[mn, mx]\<close>: both
  ends padded by 0.05, and the upper end forced to the padded minimum + 0.1 when the
  padded maximum is not above the padded minimum; all in double arithmetic.
\<close>

definition padded_domain :: "real \<Rightarrow> real \<Rightarrow> number \<times> number" where
  "padded_domain mn mx =
     (let lo = num_sub (Num mn) (to_double (5 / 100));
          hi = num_add (Num mx) (to_double (5 / 100))
      in (lo, if num_le hi lo then num_add lo (to_double (1 / 10)) else hi))"

text \<open>
  The finite values of the two metrics over the entries of the summary, and the domain of
  the current colour scale (\<open>None\<close> before the first scale is built).
\<close>

definition count_values :: "globals \<Rightarrow> real list" where
  "count_values g = map (\<lambda>s. real_of (totalCount s)) (Map_values (stateSummary g))"

definition severity_values :: "globals \<Rightarrow> real list" where
  "severity_values g = map (\<lambda>s. real_of (avgSeverity s)) (Map_values (stateSummary g))"

definition scale_domain :: "globals \<Rightarrow> (number \<times> number) option" where
  "scale_domain g = map_option domain (colorScale g)"

text \<open>
  The names of the properties of a parsed row that are numbers, and of those that are
  strings, in the order of the object literal.
\<close>

definition numeric_properties :: "AccidentRecord \<Rightarrow> string list" where
  "numeric_properties r = map fst (filter (\<lambda>(k, v). is_Number v) (own_properties r))"

definition string_properties :: "AccidentRecord \<Rightarrow> string list" where
  "string_properties r = map fst (filter (\<lambda>(k, v). is_String v) (own_properties r))"

text \<open>The indices of the paths that carry the class \<open>selected\<close>.\<close>

definition selected_paths :: "globals \<Rightarrow> nat list" where
  "selected_paths g = filter (\<lambda>j. selected (paths g ! j)) [0..<length (paths g)]"

text \<open>A sample row of the CSV file and a sample feature collection.\<close>

definition sample_row :: csv_row where
  "sample_row =
     [''state'' \<mapsto> ''TX'', ''year_month'' \<mapsto> ''2016-01'', ''year'' \<mapsto> ''2016'',
      ''count_accidents'' \<mapsto> ''100'', ''avg_severity'' \<mapsto> ''2.5'']"

definition sample_features :: "feature list" where
  "sample_features =
     [\<lparr>properties = Some [''NAME10'' \<mapsto> JStr ''Texas'', ''STUSPS10'' \<mapsto> JStr ''TX'']\<rparr>,
      \<lparr>properties = Some [''NAME10'' \<mapsto> JStr ''Nowhere'', ''STUSPS10'' \<mapsto> JStr ''  '']\<rparr>,
      \<lparr>properties = Some [''STATE'' \<mapsto> JNum (Num 6), ''postal'' \<mapsto> JStr '' CA '']\<rparr>,
      \<lparr>properties = None\<rparr>]"

text \<open>Sample rows: two for Texas in different letter case, one without accidents, one without a state.\<close>

definition sample_data :: "AccidentRecord list" where
  "sample_data =
     [\<lparr>state = Some ''TX'', year_month = Some ''2016-01'', year = Num 2016,
       count_accidents = Num 100, avg_severity = Num 2\<rparr>,
      \<lparr>state = Some ''tx'', year_month = Some ''2016-02'', year = Num 2016,
       count_accidents = Num 50, avg_severity = Num 4\<rparr>,
      \<lparr>state = Some ''CA'', year_month = Some ''2016-01'', year = Num 2016,
       count_accidents = Num 0, avg_severity = Num 3\<rparr>,
      \<lparr>state = None, year_month = Some ''2016-03'', year = Num 2016,
       count_accidents = Num 7, avg_severity = Num 1\<rparr>]"

text \<open>Sample rows of two states, every one with the average severity 2.5.\<close>

definition flat_data :: "AccidentRecord list" where
  "flat_data =
     [\<lparr>state = Some ''TX'', year_month = Some ''2016-01'', year = Num 2016,
       count_accidents = Num 10, avg_severity = Num (5 / 2)\<rparr>,
      \<lparr>state = Some ''CA'', year_month = Some ''2016-01'', year = Num 2016,
       count_accidents = Num 30, avg_severity = Num (5 / 2)\<rparr>]"

text \<open>
  Rows within the data model whose arithmetic leaves the range of the doubles: two rows
  of one state with the count \<open>2^1023\<close> each; one row with the count \<open>2^1023\<close> and the
  severity 4; that row beside an ordinary one; and one row with the count \<open>2^53\<close>.
\<close>

definition overflow_data :: "AccidentRecord list" where
  "overflow_data =
     [\<lparr>state = Some ''TX'', year_month = Some ''2016-01'', year = Num 2016,
       count_accidents = Num (2 ^ 1023), avg_severity = Num 1\<rparr>,
      \<lparr>state = Some ''TX'', year_month = Some ''2016-02'', year = Num 2016,
       count_accidents = Num (2 ^ 1023), avg_severity = Num 1\<rparr>]"


definition mixed_data :: "AccidentRecord list" where
  "mixed_data =
     [\<lparr>state = Some ''TX'', year_month = Some ''2016-01'', year = Num 2016,
       count_accidents = Num 1, avg_severity = Num 2\<rparr>,
      \<lparr>state = Some ''CA'', year_month = Some ''2016-01'', year = Num 2016,
       count_accidents = Num (2 ^ 1023), avg_severity = Num 4\<rparr>]"

definition big_data :: "AccidentRecord list" where
  "big_data =
     [\<lparr>state = Some ''TX'', year_month = Some ''2016-01'', year = Num 2016,
       count_accidents = Num (2 ^ 53), avg_severity = Num 1\<rparr>]"

text \<open>A page whose only entry has the average \<open>2^60\<close>, beyond the reach of the padding.\<close>

definition far_page :: globals where
  "far_page =
     initial_globals
       \<lparr>stateSummary := [(''TX'', \<lparr>totalCount = Num 1, avgSeverity = Num (2 ^ 60)\<rparr>)],
        currentMetric := ''severity''\<rparr>"

section \<open>Verification\<close>

subsection \<open>Rounding to double precision is monotone and exact on the doubles\<close>

lemma round_even_of_int: "round_even (of_int k) = k"
  by (simp add: round_even_def)

lemma round_even_cases: "round_even r = \<lfloor>r\<rfloor> \<or> round_even r = \<lfloor>r\<rfloor> + 1"
  by (simp add: round_even_def Let_def)

lemma round_even_mono:
  assumes "r \<le> s"
  shows "round_even r \<le> round_even s"
proof (cases "\<lfloor>r\<rfloor> = \<lfloor>s\<rfloor>")
  case True
  then show ?thesis using assms by (auto simp: round_even_def Let_def)
next
  case False
  then have "\<lfloor>r\<rfloor> + 1 \<le> \<lfloor>s\<rfloor>"
    using assms floor_mono [of r s] by linarith
  then show ?thesis
    using round_even_cases [of r] round_even_cases [of s] by linarith
qed

lemma round_even_le: "r \<le> of_int n \<Longrightarrow> round_even r \<le> n"
  using round_even_mono [of r "of_int n"] by (simp add: round_even_of_int)

lemma round_even_ge: "of_int n \<le> r \<Longrightarrow> n \<le> round_even r"
  using round_even_mono [of "of_int n" r] by (simp add: round_even_of_int)

lemma two_powi_nat: "0 \<le> e \<Longrightarrow> (2::real) powi e = 2 ^ nat e"
  by (simp add: power_int_def)

lemma two_powi_neg: "0 \<le> n \<Longrightarrow> (2::real) powi (- n) = 1 / 2 ^ nat n"
  by (simp add: power_int_def field_simps)

lemma expo_bounds:
  assumes "0 < a"
  shows "2 powi expo a \<le> a \<and> a < 2 powi (expo a + 1)"
proof (cases "1 \<le> a")
  case True
  define k where "k = \<lfloor>a\<rfloor>"
  have k: "0 < k" using True by (simp add: k_def)
  have e: "expo a = bitlen k - 1" using True by (simp add: expo_def k_def)
  have b: "2 ^ nat (bitlen k - 1) \<le> k" "k < 2 ^ nat (bitlen k)"
    using bitlen_bounds [OF k] by simp_all
  have p: "1 \<le> bitlen k" using k bitlen_eq_zero_iff [of k] bitlen_nonneg [of k] by linarith
  have "(2::real) ^ nat (bitlen k - 1) \<le> real_of_int k"
    using b(1) by (metis of_int_le_iff of_int_numeral of_int_power)
  moreover have "real_of_int k \<le> a" by (simp add: k_def)
  ultimately have "(2::real) ^ nat (bitlen k - 1) \<le> a" by linarith
  then have lo: "2 powi expo a \<le> a"
    using p by (simp add: e two_powi_nat)
  have "k + 1 \<le> 2 ^ nat (bitlen k)" using b(2) by simp
  then have "real_of_int (k + 1) \<le> (2::real) ^ nat (bitlen k)"
    by (metis of_int_le_iff of_int_numeral of_int_power)
  moreover have "a < real_of_int (k + 1)" by (simp add: k_def)
  ultimately have "a < (2::real) ^ nat (bitlen k)" by linarith
  then have hi: "a < 2 powi (expo a + 1)"
    using p by (simp add: e two_powi_nat)
  show ?thesis using lo hi by simp
next
  case False
  define k where "k = \<lceil>1 / a\<rceil>"
  define n where "n = bitlen (k - 1)"
  have a1: "a < 1" using False by simp
  have inv: "1 < 1 / a" using assms a1 by simp
  have k2: "2 \<le> k" using inv by (simp add: k_def le_ceiling_iff)
  have k1: "0 < k - 1" using k2 by simp
  have e: "expo a = - n" using False by (simp add: expo_def k_def n_def)
  have b: "2 ^ nat (n - 1) \<le> k - 1" "k - 1 < 2 ^ nat n"
    using bitlen_bounds [OF k1] by (simp_all add: n_def)
  have p: "1 \<le> n"
    using k1 bitlen_eq_zero_iff [of "k - 1"] bitlen_nonneg [of "k - 1"] unfolding n_def
    by linarith
  have "k \<le> 2 ^ nat n" using b(2) by simp
  then have "real_of_int k \<le> 2 ^ nat n" by (metis of_int_le_iff of_int_numeral of_int_power)
  moreover have "1 / a \<le> real_of_int k" by (simp add: k_def)
  ultimately have "1 / a \<le> 2 ^ nat n" by linarith
  then have "1 \<le> 2 ^ nat n * a" using assms by (simp add: field_simps)
  then have lo: "2 powi expo a \<le> a"
    using p by (simp add: e two_powi_neg field_simps)
  have "real_of_int (k - 1) < 1 / a" unfolding k_def by linarith
  moreover have "(2::real) ^ nat (n - 1) \<le> real_of_int (k - 1)"
    using b(1) by (metis of_int_le_iff of_int_numeral of_int_power)
  ultimately have "2 ^ nat (n - 1) < 1 / a" by linarith
  then have "a < 1 / 2 ^ nat (n - 1)" using assms by (simp add: field_simps)
  moreover have "expo a + 1 = - (n - 1)" using e by simp
  moreover have "(2::real) powi (- (n - 1)) = 1 / 2 ^ nat (n - 1)"
    using p by (intro two_powi_neg) simp
  ultimately have hi: "a < 2 powi (expo a + 1)" by simp
  show ?thesis using lo hi by simp
qed

lemma two_powi_less_imp: "(2::real) powi m < 2 powi n \<Longrightarrow> m < n"
proof (rule ccontr)
  assume l: "(2::real) powi m < 2 powi n" and "\<not> m < n"
  then have "n \<le> m" by simp
  then have "(2::real) powi n \<le> 2 powi m" by (intro power_int_increasing) simp_all
  then show False using l by simp
qed

lemma expo_unique:
  assumes "0 < a" and "2 powi e \<le> a" and "a < 2 powi (e + 1)"
  shows "expo a = e"
proof -
  have b: "2 powi expo a \<le> a" "a < 2 powi (expo a + 1)"
    using expo_bounds [OF assms(1)] by simp_all
  have "(2::real) powi expo a < 2 powi (e + 1)" using b(1) assms(3) by linarith
  then have "expo a < e + 1" by (rule two_powi_less_imp)
  moreover have "(2::real) powi e < 2 powi (expo a + 1)" using b(2) assms(2) by linarith
  then have "e < expo a + 1" by (rule two_powi_less_imp)
  ultimately show ?thesis by simp
qed

lemma expo_mono:
  assumes "0 < a" and "a \<le> b"
  shows "expo a \<le> expo b"
proof -
  have "2 powi expo a \<le> a" using expo_bounds [OF assms(1)] by simp
  moreover have "b < 2 powi (expo b + 1)" using expo_bounds [of b] assms by simp
  ultimately have "(2::real) powi expo a < 2 powi (expo b + 1)" using assms(2) by linarith
  then have "expo a < expo b + 1" by (rule two_powi_less_imp)
  then show ?thesis by simp
qed

lemma quantum_pos: "0 < quantum a"
  by (simp add: quantum_def zero_less_power_int)

lemma round_pos_quantum: "round_pos a = of_int (round_even (a / quantum a)) * quantum a"
  by (simp add: round_pos_def)

lemma round_pos_nonneg:
  assumes "0 < a"
  shows "0 \<le> round_pos a"
proof -
  have "0 \<le> a / quantum a" using assms quantum_pos [of a] by simp
  then have "0 \<le> round_even (a / quantum a)"
    using round_even_ge [of 0 "a / quantum a"] by simp
  then show ?thesis using quantum_pos [of a] by (simp add: round_pos_quantum)
qed

lemma quantum_split: "quantum a * 2 ^ 52 = 2 powi (max (expo a) (- 1022))"
proof -
  have "(2::real) powi (max (expo a) (- 1022) - 52 + 52)
      = 2 powi (max (expo a) (- 1022) - 52) * 2 powi 52"
    by (rule power_int_add) simp
  then show ?thesis by (simp add: quantum_def)
qed

lemma round_pos_upper:
  assumes "0 < a"
  shows "round_pos a \<le> 2 powi (max (expo a) (- 1022) + 1)"
proof -
  let ?E = "max (expo a) (- 1022)"
  have "a < 2 powi (expo a + 1)" using expo_bounds [OF assms] by simp
  also have "\<dots> \<le> 2 powi (?E + 1)" by (intro power_int_increasing) simp_all
  finally have "a < 2 powi (?E + 1)" .
  moreover have "(2::real) powi (?E + 1) = 2 powi ?E * 2"
    by (rule power_int_add_1) simp
  ultimately have "a < quantum a * 2 ^ 53" using quantum_split [of a] by simp
  then have "a / quantum a \<le> of_int (2 ^ 53)"
    using quantum_pos [of a] by (simp add: field_simps)
  then have "round_even (a / quantum a) \<le> 2 ^ 53" by (rule round_even_le)
  then have "real_of_int (round_even (a / quantum a)) \<le> 2 ^ 53"
    by (metis of_int_le_iff of_int_numeral of_int_power)
  then have "round_pos a \<le> 2 ^ 53 * quantum a"
    using quantum_pos [of a] by (simp add: round_pos_quantum)
  also have "\<dots> = 2 powi ?E * 2" using quantum_split [of a] by simp
  also have "\<dots> = 2 powi (?E + 1)" by (rule power_int_add_1 [symmetric]) simp
  finally show ?thesis .
qed

lemma round_pos_lower:
  assumes "0 < a" and "- 1022 \<le> expo a"
  shows "2 powi expo a \<le> round_pos a"
proof -
  have E: "max (expo a) (- 1022) = expo a" using assms(2) by simp
  have "2 powi expo a \<le> a" using expo_bounds [OF assms(1)] by simp
  then have "quantum a * 2 ^ 52 \<le> a" using quantum_split [of a] E by simp
  then have "of_int (2 ^ 52) \<le> a / quantum a"
    using quantum_pos [of a] by (simp add: field_simps)
  then have "2 ^ 52 \<le> round_even (a / quantum a)" by (rule round_even_ge)
  then have "2 ^ 52 \<le> real_of_int (round_even (a / quantum a))"
    by (metis of_int_le_iff of_int_numeral of_int_power)
  then have "2 ^ 52 * quantum a \<le> round_pos a"
    using quantum_pos [of a] by (simp add: round_pos_quantum)
  then show ?thesis using quantum_split [of a] E by (simp add: mult.commute)
qed

lemma round_pos_mono:
  assumes "0 < a" and "a \<le> b"
  shows "round_pos a \<le> round_pos b"
proof -
  let ?Ea = "max (expo a) (- 1022)" and ?Eb = "max (expo b) (- 1022)"
  have b: "0 < b" using assms by simp
  have le: "?Ea \<le> ?Eb" using expo_mono [OF assms] by simp
  show ?thesis
  proof (cases "?Ea = ?Eb")
    case True
    then have q: "quantum a = quantum b" by (simp add: quantum_def)
    have "a / quantum b \<le> b / quantum b"
      using assms(2) quantum_pos [of b] by (simp add: divide_right_mono)
    then have "round_even (a / quantum b) \<le> round_even (b / quantum b)"
      by (rule round_even_mono)
    then show ?thesis
      using quantum_pos [of b] by (simp add: round_pos_quantum q)
  next
    case False
    then have lt: "?Ea + 1 \<le> ?Eb" using le by simp
    then have eb: "- 1022 \<le> expo b" "?Eb = expo b" by simp_all
    have "round_pos a \<le> 2 powi (?Ea + 1)" using assms(1) by (rule round_pos_upper)
    also have "\<dots> \<le> 2 powi ?Eb" using lt by (intro power_int_increasing) simp_all
    also have "\<dots> \<le> round_pos b" using round_pos_lower [OF b eb(1)] eb(2) by simp
    finally show ?thesis .
  qed
qed

lemma round_double_mono:
  assumes "x \<le> y"
  shows "round_double x \<le> round_double y"
proof -
  consider "x = 0" | "0 < x" | "x < 0" by linarith
  then show ?thesis
  proof cases
    case 1
    then show ?thesis using assms round_pos_nonneg [of y] by (simp add: round_double_def)
  next
    case 2
    then show ?thesis using assms round_pos_mono [of x y] by (simp add: round_double_def)
  next
    case 3
    consider "y = 0" | "0 < y" | "y < 0" by linarith
    then show ?thesis
    proof cases
      case 1
      then show ?thesis using 3 round_pos_nonneg [of "- x"] by (simp add: round_double_def)
    next
      case 2
      then show ?thesis
        using 3 round_pos_nonneg [of "- x"] round_pos_nonneg [of y]
        by (simp add: round_double_def)
    next
      case y: 3
      then show ?thesis
        using 3 assms round_pos_mono [of "- y" "- x"] by (simp add: round_double_def)
    qed
  qed
qed

lemma round_pos_exact:
  assumes "0 < m" and "m < 2 ^ 53" and "- 1074 \<le> j"
  shows "round_pos (of_int m * 2 powi j) = of_int m * 2 powi j"
proof -
  let ?a = "real_of_int m * 2 powi j"
  let ?E = "max (expo ?a) (- 1022)"
  have pos: "0 < ?a" using assms(1) by (simp add: zero_less_power_int)
  have "real_of_int m < 2 ^ 53"
    using assms(2) by (metis of_int_less_iff of_int_numeral of_int_power)
  then have "?a < 2 ^ 53 * 2 powi j"
    by (simp add: zero_less_power_int)
  also have "\<dots> = 2 powi (53 + j)"
    using power_int_add [of "2::real" 53 j] by simp
  finally have "2 powi expo ?a < (2::real) powi (53 + j)"
    using expo_bounds [OF pos] by linarith
  then have "expo ?a < 53 + j" by (rule two_powi_less_imp)
  then have d: "0 \<le> j + 52 - ?E" using assms(3) by simp
  have "(2::real) powi (j - (?E - 52)) = 2 powi j / 2 powi (?E - 52)"
    by (rule power_int_diff) simp
  then have "?a / quantum ?a = real_of_int m * 2 powi (j + 52 - ?E)"
    by (simp add: quantum_def algebra_simps)
  also have "\<dots> = real_of_int (m * 2 ^ nat (j + 52 - ?E))"
    using d by (simp add: two_powi_nat)
  finally have "round_even (?a / quantum ?a) = m * 2 ^ nat (j + 52 - ?E)"
    by (simp only: round_even_of_int)
  then have "round_pos ?a = real_of_int (m * 2 ^ nat (j + 52 - ?E)) * quantum ?a"
    by (simp add: round_pos_quantum)
  also have "\<dots> = real_of_int m * (2 powi (j + 52 - ?E) * 2 powi (?E - 52))"
    using d by (simp add: two_powi_nat quantum_def)
  also have "2 powi (j + 52 - ?E) * 2 powi (?E - 52) = (2::real) powi (j + 52 - ?E + (?E - 52))"
    by (rule power_int_add [symmetric]) simp
  finally show ?thesis by simp
qed

lemma round_double_minus: "round_double (- x) = - round_double x"
  by (simp add: round_double_def)

lemma round_double_exact:
  assumes "0 < m" and "m < 2 ^ 53" and "- 1074 \<le> j"
  shows "round_double (of_int m * 2 powi j) = of_int m * 2 powi j"
proof -
  have "0 < real_of_int m * 2 powi j" using assms(1) by (simp add: zero_less_power_int)
  then show ?thesis using round_pos_exact [OF assms] by (simp add: round_double_def)
qed

lemma round_double_nat:
  assumes "n \<le> 2 ^ 53"
  shows "round_double (real n) = real n"
proof -
  consider "n = 0" | "0 < n" "n < 2 ^ 53" | "n = 2 ^ 53" using assms by linarith
  then show ?thesis
  proof cases
    case 1
    then show ?thesis by (simp add: round_double_def)
  next
    case 2
    then have "0 < int n" "int n < 2 ^ 53"
      by (simp_all add: of_nat_less_numeral_power_cancel_iff)
    then have "round_double (of_int (int n) * 2 powi 0) = of_int (int n) * 2 powi 0"
      by (intro round_double_exact) simp_all
    then show ?thesis by simp
  next
    case 3
    have "round_double (of_int (2 ^ 52) * 2 powi 1) = of_int (2 ^ 52) * 2 powi 1"
      by (intro round_double_exact) simp_all
    then show ?thesis using 3 by simp
  qed
qed

lemma to_double_finite:
  "- (2 ^ 1024) < round_double x \<Longrightarrow> round_double x < 2 ^ 1024 \<Longrightarrow>
   to_double x = Num (round_double x)"
  by (simp add: to_double_def Let_def)

lemma to_double_nat: "n \<le> 2 ^ 53 \<Longrightarrow> to_double (real n) = Num (real n)"
proof -
  assume n: "n \<le> 2 ^ 53"
  then have "real n \<le> 2 ^ 53"
    by (metis of_nat_le_iff of_nat_numeral of_nat_power)
  moreover have "(2::real) ^ 53 < 2 ^ 1024" by simp
  ultimately have "real n < 2 ^ 1024" by linarith
  moreover have "(0::real) < 2 ^ 1024" by simp
  then have "- (2 ^ 1024) < real n" using of_nat_0_le_iff [of n] by linarith
  ultimately show ?thesis
    using round_double_nat [OF n] by (simp add: to_double_finite)
qed

lemma to_double_numeral:
  "numeral k \<le> (2::nat) ^ 53 \<Longrightarrow> to_double (numeral k) = Num (numeral k)"
  using to_double_nat [of "numeral k"] by simp

lemma to_double_0: "to_double 0 = Num 0"
  using to_double_nat [of 0] by simp

lemma to_double_1: "to_double 1 = Num 1"
  using to_double_nat [of 1] by simp


lemma to_double_huge:
  assumes "2 ^ 1024 \<le> x"
  shows "to_double x = PInf"
proof -
  have "round_double (of_int 1 * 2 powi 1024) = of_int 1 * 2 powi 1024"
    by (intro round_double_exact) simp_all
  then have "round_double (2 ^ 1024) = 2 ^ 1024" by simp
  then have "2 ^ 1024 \<le> round_double x"
    using round_double_mono [OF assms] by simp
  then show ?thesis by (simp add: to_double_def Let_def)
qed

lemma to_double_exact:
  assumes "0 < m" and "m < 2 ^ 53" and "- 1074 \<le> j"
    and "real_of_int m * 2 powi j < 2 ^ 1024"
  shows "to_double (of_int m * 2 powi j) = Num (of_int m * 2 powi j)"
proof -
  let ?v = "real_of_int m * 2 powi j"
  have r: "round_double ?v = ?v" using assms(1-3) by (rule round_double_exact)
  have "0 < ?v" using assms(1) by (simp add: zero_less_power_int)
  then show ?thesis using r assms(4) by (simp add: to_double_finite)
qed

lemma to_double_eval:
  assumes "0 < a" and "2 powi e \<le> a" and "a < 2 powi (e + 1)"
    and "- 1022 \<le> e" and "e \<le> 1022"
    and "round_even (a / 2 powi (e - 52)) = k"
  shows "to_double a = Num (of_int k * 2 powi (e - 52))"
proof -
  have e: "expo a = e" using assms(1-3) by (rule expo_unique)
  then have q: "quantum a = 2 powi (e - 52)" using assms(4) by (simp add: quantum_def)
  have r: "round_double a = of_int k * 2 powi (e - 52)"
    using assms(1,6) by (simp add: round_double_def round_pos_def q)
  have "round_pos a \<le> 2 powi (max (expo a) (- 1022) + 1)"
    using assms(1) by (rule round_pos_upper)
  also have "\<dots> = 2 powi (e + 1)" using e assms(4) by simp
  also have "\<dots> \<le> 2 powi 1023" using assms(5) by (intro power_int_increasing) simp_all
  also have "\<dots> < 2 ^ 1024" by simp
  finally have "round_double a < 2 ^ 1024" using assms(1) by (simp add: round_double_def)
  moreover have "0 \<le> round_double a"
    using assms(1) round_pos_nonneg [of a] by (simp add: round_double_def)
  ultimately show ?thesis using r by (simp add: to_double_finite)
qed

lemma dbl_1_20: "to_double (1 / 20) = Num (3602879701896397 / 72057594037927936)"
  using to_double_eval [of "1 / 20" "- 5" 7205759403792794]
  by (simp add: round_even_def power_int_minus)

lemma dbl_2_1023: "to_double (2 ^ 1023) = Num (2 ^ 1023)"
  using to_double_exact [of 1 1023] by simp

lemma dbl_2_53: "to_double (2 ^ 53) = Num (2 ^ 53)"
  using to_double_nat [of "2 ^ 53"] by simp

subsection \<open>The summary map as a function of the rows\<close>

lemma map_of_Map_set: "map_of (Map_set m k v) = (map_of m)(k \<mapsto> v)"
  by (induction m) (auto simp: fun_eq_iff)

lemma keys_Map_set:
  "map fst (Map_set m k v) = (if k \<in> fst ` set m then map fst m else map fst m @ [k])"
  by (induction m) (auto simp: image_iff, force+)

lemma records_of_absent: "code \<notin> code_of ` set ds \<Longrightarrow> records_of code ds = []"
  unfolding records_of_def by (induction ds) auto

lemma records_of_snoc:
  "records_of code (ds @ [d]) = records_of code ds @ (if code_of d = code then [d] else [])"
  by (simp add: records_of_def)

lemma accumulate_skip: "code_of d = [] \<Longrightarrow> accumulate m d = m"
  by (simp add: accumulate_def)

lemma accumulate_keys:
  "code_of d \<noteq> [] \<Longrightarrow>
   map fst (accumulate m d) =
     (if code_of d \<in> fst ` set m then map fst m else map fst m @ [code_of d])"
  by (simp add: accumulate_def Let_def keys_Map_set)

lemma accumulate_map_of:
  "code_of d \<noteq> [] \<Longrightarrow>
   map_of (accumulate m d) =
     (map_of m)(code_of d \<mapsto>
        (let e = (case map_of m (code_of d) of Some e \<Rightarrow> e
                  | None \<Rightarrow> \<lparr>totalCount = Num 0, weightedSeverity = Num 0\<rparr>)
         in e\<lparr>totalCount := num_add (totalCount e) (count_accidents d),
              weightedSeverity := num_add (weightedSeverity e)
                (num_mul (avg_severity d) (count_accidents d))\<rparr>))"
  by (simp add: accumulate_def Let_def map_of_Map_set Map_get_def)

lemma accumulate_get:
  "map_of (foldl accumulate [] data) code =
     (if code \<noteq> [] \<and> code \<in> code_of ` set data then Some (acc_of code data) else None)"
proof (induction data rule: rev_induct)
  case Nil
  show ?case by simp
next
  case (snoc d ds)
  show ?case
  proof (cases "code_of d = []")
    case True
    then show ?thesis using snoc by (auto simp: accumulate_skip acc_of_def double_sum_def records_of_snoc)
  next
    case False
    show ?thesis
    proof (cases "code_of d = code")
      case True
      then show ?thesis using False snoc
        by (auto simp: accumulate_map_of Let_def acc_of_def double_sum_def weighted_term_def
            records_of_snoc records_of_absent)
    next
      case ne: False
      then show ?thesis using False snoc
        by (auto simp: accumulate_map_of acc_of_def double_sum_def records_of_snoc)
    qed
  qed
qed

lemma accumulate_keys_set:
  "set (map fst (foldl accumulate [] data)) = {c \<in> code_of ` set data. c \<noteq> []}"
proof (induction data rule: rev_induct)
  case Nil
  show ?case by simp
next
  case (snoc d ds)
  show ?case
  proof (cases "code_of d = []")
    case True
    then show ?thesis using snoc by (auto simp: accumulate_skip)
  next
    case False
    then show ?thesis using snoc by (auto simp: accumulate_keys)
  qed
qed

lemma accumulate_keys_distinct: "distinct (map fst (foldl accumulate [] data))"
proof (induction data rule: rev_induct)
  case Nil
  show ?case by simp
next
  case (snoc d ds)
  show ?case
  proof (cases "code_of d = []")
    case True
    then show ?thesis using snoc by (simp add: accumulate_skip)
  next
    case False
    then show ?thesis using snoc by (auto simp: accumulate_keys)
  qed
qed

lemma keys_buildStateSummary: "Map_keys (buildStateSummary data) = map fst (foldl accumulate [] data)"
  by (simp add: Map_keys_def buildStateSummary_def case_prod_unfold comp_def)

lemma get_buildStateSummary:
  "Map_get (buildStateSummary data) code =
     (if code \<noteq> [] \<and> code \<in> code_of ` set data then Some (finish (acc_of code data)) else None)"
  unfolding Map_get_def buildStateSummary_def
  by (simp add: map_of_map accumulate_get)


lemma upper_char_idem: "upper_char (upper_char c) = upper_char c"
  by (simp add: upper_char_def)

lemma not_lower_upper_char: "\<not> is_lower (upper_char c)"
  by (simp add: upper_char_def is_lower_def)

lemma toUpperCase_idem: "toUpperCase (toUpperCase s) = toUpperCase s"
  by (simp add: toUpperCase_def upper_char_idem)

lemma is_upper_toUpperCase: "is_upper_string (toUpperCase s)"
  by (simp add: is_upper_string_def toUpperCase_def list_all_iff not_lower_upper_char)

lemma code_of_raise_state: "code_of (raise_state d) = code_of d"
  by (cases "state d") (simp_all add: code_of_def raise_state_def toUpperCase_idem)

lemma accumulate_raise_state: "accumulate m (raise_state d) = accumulate m d"
proof -
  have h: "count_accidents (raise_state d) = count_accidents d"
       "avg_severity (raise_state d) = avg_severity d"
    by (simp_all add: raise_state_def)
  show ?thesis
    by (simp add: accumulate_def code_of_raise_state h Let_def)
qed

lemma no_state_code: "no_state d \<Longrightarrow> code_of d = []"
  by (auto simp: no_state_def code_of_def toUpperCase_def)

lemma foldl_accumulate_raise: "foldl accumulate m (map raise_state data) = foldl accumulate m data"
  by (induction data arbitrary: m) (simp_all add: accumulate_raise_state)

lemma foldl_accumulate_drop:
  "foldl accumulate m (filter (\<lambda>d. \<not> no_state d) data) = foldl accumulate m data"
  by (induction data arbitrary: m) (simp_all add: accumulate_skip no_state_code)

lemma double_sum_snoc: "double_sum (ns @ [n]) = num_add (double_sum ns) n"
  by (simp add: double_sum_def)

lemma is_count_nat:
  assumes "is_count n"
  obtains k :: nat where "n = Num (real k)"
proof -
  obtain x where x: "n = Num x" using assms by (cases n) (auto simp: is_count_def)
  have "0 \<le> x" "of_int \<lfloor>x\<rfloor> = x" using assms x by (simp_all add: is_count_def)
  then have "x = real (nat \<lfloor>x\<rfloor>)" by (metis floor_of_int of_int_0_le_iff of_nat_nat)
  then show ?thesis using x that by blast
qed

lemma sum_counts_snoc: "sum_counts (ds @ [d]) = sum_counts ds + real_of (count_accidents d)"
  by (simp add: sum_counts_def)

lemma sum_counts_nat:
  assumes "list_all (\<lambda>d. is_count (count_accidents d)) ds"
  obtains t :: nat where "sum_counts ds = real t"
proof -
  have "\<exists>t::nat. sum_counts ds = real t" using assms
  proof (induction ds rule: rev_induct)
    case Nil
    show ?case by (simp add: sum_counts_def)
  next
    case (snoc d ds)
    then obtain t :: nat where t: "sum_counts ds = real t" by auto
    obtain k :: nat where "count_accidents d = Num (real k)"
      using snoc.prems by (auto elim: is_count_nat)
    then have "sum_counts (ds @ [d]) = real (t + k)" using t by (simp add: sum_counts_snoc)
    then show ?case by blast
  qed
  then show ?thesis using that by blast
qed


lemma real_nat_le_power: "real (t::nat) \<le> 2 ^ n \<Longrightarrow> t \<le> 2 ^ n"
  by (metis of_nat_le_iff of_nat_numeral of_nat_power)

text \<open>The totals are exact while they stay within 53 bits.\<close>

lemma double_sum_counts:
  assumes "list_all (\<lambda>d. is_count (count_accidents d)) ds" and "sum_counts ds \<le> 2 ^ 53"
  shows "double_sum (map count_accidents ds) = Num (sum_counts ds)"
  using assms
proof (induction ds rule: rev_induct)
  case Nil
  show ?case by (simp add: double_sum_def sum_counts_def)
next
  case (snoc d ds)
  have c: "list_all (\<lambda>d. is_count (count_accidents d)) ds" "is_count (count_accidents d)"
    using snoc.prems(1) by simp_all
  obtain k :: nat where k: "count_accidents d = Num (real k)" using c(2) by (rule is_count_nat)
  obtain t :: nat where t: "sum_counts ds = real t" using c(1) by (rule sum_counts_nat)
  have s: "sum_counts (ds @ [d]) = real (t + k)" using t k by (simp add: sum_counts_snoc)
  then have b: "t + k \<le> 2 ^ 53" using snoc.prems(2) real_nat_le_power by simp
  then have "sum_counts ds \<le> 2 ^ 53" using t
    by (metis add_leD1 of_nat_le_iff of_nat_numeral of_nat_power)
  then have "double_sum (map count_accidents ds) = Num (real t)"
    using snoc.IH c(1) t by simp
  then have "double_sum (map count_accidents (ds @ [d])) = to_double (real (t + k))"
    using k by (simp add: double_sum_snoc)
  then show ?case using to_double_nat [OF b] s by simp
qed



lemma count_records_of:
  "list_all (\<lambda>d. is_count (count_accidents d)) data \<Longrightarrow>
   list_all (\<lambda>d. is_count (count_accidents d)) (records_of code data)"
  by (simp add: records_of_def list_all_iff)



lemma dbl_2_1024: "to_double (2 ^ 1024) = PInf"
  by (simp add: to_double_huge)

lemma overflow_summary:
  "buildStateSummary overflow_data = [(''TX'', \<lparr>totalCount = PInf, avgSeverity = NaN\<rparr>)]"
  using dbl_2_1023 dbl_2_1024
  by (simp add: overflow_data_def buildStateSummary_def accumulate_def finish_def code_of_def
      toUpperCase_def upper_char_def Map_get_def num_gt_def Let_def to_double_1)


lemma sample_summary:
  "buildStateSummary sample_data =
     [(''TX'', \<lparr>totalCount = Num 150, avgSeverity = to_double (8 / 3)\<rparr>),
      (''CA'', \<lparr>totalCount = Num 0, avgSeverity = Num 0\<rparr>)]"
  by (simp add: sample_data_def buildStateSummary_def accumulate_def finish_def code_of_def
      toUpperCase_def upper_char_def Map_get_def num_gt_def Let_def to_double_numeral
      to_double_0)

lemma dbl_8_3: "to_double (8 / 3) = Num (6004799503160661 / 2251799813685248)"
  using to_double_eval [of "8 / 3" 1 6004799503160661]
  by (simp add: round_even_def power_int_minus)

text \<open>
  C1, as the script computes it. For every sequence of records, the summary has an entry
  exactly for each non-empty normalised state code that occurs. Its \<open>totalCount\<close> is
  the sum of \<open>count_accidents\<close> over that state's records and its \<open>avgSeverity\<close> is the
  quotient of the sum of the products \<open>avg_severity * count_accidents\<close> by \<open>totalCount\<close>,
  where every sum, product and quotient is the one of double arithmetic, taken in the
  order of the records (rounded to the nearest double, an overflow giving an infinity);
  when \<open>totalCount\<close> is not above 0, and so when it is 0, \<open>avgSeverity\<close> is 0 and not NaN.
  When the counts of the state are non-negative integers whose sum is at most \<open>2^53\<close>,
  \<open>totalCount\<close> is exactly their sum.
\<close>

theorem buildStateSummary_double_mean:
  "Map_get (buildStateSummary data) code =
     (if code \<noteq> [] \<and> code \<in> code_of ` set data then
        Some \<lparr>totalCount = double_sum (map count_accidents (records_of code data)),
              avgSeverity =
                (if num_gt (double_sum (map count_accidents (records_of code data))) (Num 0)
                 then num_div (double_sum (map weighted_term (records_of code data)))
                        (double_sum (map count_accidents (records_of code data)))
                 else Num 0)\<rparr>
      else None)
   \<and> (list_all (\<lambda>d. is_count (count_accidents d)) (records_of code data)
        \<and> sum_counts (records_of code data) \<le> 2 ^ 53
      \<longrightarrow> double_sum (map count_accidents (records_of code data))
            = Num (sum_counts (records_of code data)))"
proof -
  have "Map_get (buildStateSummary data) code =
     (if code \<noteq> [] \<and> code \<in> code_of ` set data then
        Some \<lparr>totalCount = double_sum (map count_accidents (records_of code data)),
              avgSeverity =
                (if num_gt (double_sum (map count_accidents (records_of code data))) (Num 0)
                 then num_div (double_sum (map weighted_term (records_of code data)))
                        (double_sum (map count_accidents (records_of code data)))
                 else Num 0)\<rparr>
      else None)"
    by (simp add: get_buildStateSummary finish_def acc_of_def)
  then show ?thesis using double_sum_counts [of "records_of code data"] by blast
qed

theorem buildStateSummary_double_mean_witness:
  "Map_get (buildStateSummary sample_data) ''TX''
     = Some \<lparr>totalCount = Num 150, avgSeverity = to_double (8 / 3)\<rparr>
   \<and> list_all (\<lambda>d. is_count (count_accidents d)) (records_of ''TX'' sample_data)
   \<and> sum_counts (records_of ''TX'' sample_data) = 150
   \<and> double_sum (map count_accidents (records_of ''TX'' sample_data)) = Num 150
   \<and> Map_get (buildStateSummary sample_data) ''CA''
       = Some \<lparr>totalCount = Num 0, avgSeverity = Num 0\<rparr>
   \<and> Map_get (buildStateSummary sample_data) ''NY'' = None"
proof -
  have r: "records_of ''TX'' sample_data = take 2 sample_data"
    by (simp add: sample_data_def records_of_def code_of_def toUpperCase_def upper_char_def)
  have c: "list_all (\<lambda>d. is_count (count_accidents d)) (records_of ''TX'' sample_data)"
    unfolding r by (simp add: sample_data_def is_count_def)
  have s: "sum_counts (records_of ''TX'' sample_data) = 150"
    unfolding r by (simp add: sample_data_def sum_counts_def)
  have b: "sum_counts (records_of ''TX'' sample_data) \<le> 2 ^ 53" unfolding s by simp
  show ?thesis
    using c s b buildStateSummary_double_mean [of sample_data "''TX''"]
    by (simp add: sample_summary Map_get_def)
qed

text \<open>
  C1, as the specification states it, fails where the arithmetic overflows: two records
  of one state, each with the count \<open>2^1023\<close> and the severity 1, have the sum of counts
  \<open>2^1024\<close> and the weighted mean 1, and the script gives \<open>totalCount\<close> Infinity and
  \<open>avgSeverity\<close> NaN.
\<close>

theorem buildStateSummary_exact_mean_counterexample:
  "list_all ranged_record overflow_data
   \<and> Map_get (buildStateSummary overflow_data) ''TX''
       = Some \<lparr>totalCount = PInf, avgSeverity = NaN\<rparr>
   \<and> sum_counts (records_of ''TX'' overflow_data) = 2 ^ 1024"
proof -
  have "list_all ranged_record overflow_data"
    by (simp add: overflow_data_def ranged_record_def is_count_def)
  moreover have "sum_counts (records_of ''TX'' overflow_data) = 2 ^ 1024"
    by (simp add: overflow_data_def records_of_def code_of_def toUpperCase_def upper_char_def
        sum_counts_def)
  ultimately show ?thesis by (simp add: overflow_summary Map_get_def)
qed




text \<open>
  C2. The two Texas records of the scenario (whatever their other fields) give the one
  entry TX with \<open>totalCount\<close> 150 and \<open>avgSeverity\<close> the double of (100*2 + 50*4) / 150 =
  8/3, which is 6004799503160661 / 2^51 = 2.6666666666666665 and differs from 8/3 by
  less than \<open>10^-15\<close>; with the metric set to severity, \<open>getMetricValue\<close> on the
  lower-case code tx returns that value and on the absent code NY returns 0.
\<close>

theorem scenario_texas:
  "buildStateSummary
     [\<lparr>state = Some ''TX'', year_month = ym1, year = y1,
       count_accidents = Num 100, avg_severity = Num 2\<rparr>,
      \<lparr>state = Some ''TX'', year_month = ym2, year = y2,
       count_accidents = Num 50, avg_severity = Num 4\<rparr>]
     = [(''TX'', \<lparr>totalCount = Num 150, avgSeverity = to_double ((100 * 2 + 50 * 4) / 150)\<rparr>)]
   \<and> (100 * 2 + 50 * 4) / 150 = (8 / 3 :: real)
   \<and> to_double (8 / 3) = Num (6004799503160661 / 2251799813685248)
   \<and> \<bar>6004799503160661 / 2251799813685248 - 8 / 3\<bar> < (1 / 10 ^ 15 :: real)
   \<and> getMetricValue
        (g\<lparr>stateSummary := buildStateSummary
              [\<lparr>state = Some ''TX'', year_month = ym1, year = y1,
                count_accidents = Num 100, avg_severity = Num 2\<rparr>,
               \<lparr>state = Some ''TX'', year_month = ym2, year = y2,
                count_accidents = Num 50, avg_severity = Num 4\<rparr>],
            currentMetric := ''severity''\<rparr>) (Some ''tx'') = to_double (8 / 3)
   \<and> getMetricValue
        (g\<lparr>stateSummary := buildStateSummary
              [\<lparr>state = Some ''TX'', year_month = ym1, year = y1,
                count_accidents = Num 100, avg_severity = Num 2\<rparr>,
               \<lparr>state = Some ''TX'', year_month = ym2, year = y2,
                count_accidents = Num 50, avg_severity = Num 4\<rparr>],
            currentMetric := ''severity''\<rparr>) (Some ''NY'') = Num 0"
proof -
  have b: "buildStateSummary
     [\<lparr>state = Some ''TX'', year_month = ym1, year = y1,
       count_accidents = Num 100, avg_severity = Num 2\<rparr>,
      \<lparr>state = Some ''TX'', year_month = ym2, year = y2,
       count_accidents = Num 50, avg_severity = Num 4\<rparr>]
     = [(''TX'', \<lparr>totalCount = Num 150, avgSeverity = to_double (8 / 3)\<rparr>)]"
    by (simp add: buildStateSummary_def accumulate_def finish_def code_of_def toUpperCase_def
        upper_char_def Map_get_def num_gt_def Let_def to_double_numeral to_double_0)
  show ?thesis
    unfolding b
    by (simp add: getMetricValue_def Map_get_def toUpperCase_def upper_char_def dbl_8_3)
qed

text \<open>
  C3. The keys of the summary are non-empty, upper-case strings, each present once;
  dropping the records whose state is missing or empty leaves the summary unchanged, so
  they contribute to no entry; raising the state codes of the records to upper case
  leaves it unchanged too, and the entry of a key accumulates all the records whose
  state is the key up to letter case, so codes that differ in letter case only are
  aggregated together: the records of ca and CA give the single entry CA with the sum
  of their counts (7 for the counts 3 and 4).
\<close>

theorem summary_keys_normalised:
  "list_all (\<lambda>k. k \<noteq> [] \<and> is_upper_string k \<and> toUpperCase k = k)
     (Map_keys (buildStateSummary data))
   \<and> distinct (Map_keys (buildStateSummary data))
   \<and> buildStateSummary (filter (\<lambda>d. \<not> no_state d) data) = buildStateSummary data
   \<and> buildStateSummary (map raise_state data) = buildStateSummary data
   \<and> Map_get (buildStateSummary data) code =
       (if code \<noteq> [] \<and> code \<in> code_of ` set data
        then Some (finish (acc_of code data)) else None)
   \<and> map (\<lambda>(k, s). (k, totalCount s))
        (buildStateSummary
          [\<lparr>state = Some ''ca'', year_month = ym1, year = y1,
            count_accidents = c1, avg_severity = s1\<rparr>,
           \<lparr>state = Some ''CA'', year_month = ym2, year = y2,
            count_accidents = c2, avg_severity = s2\<rparr>])
      = [(''CA'', double_sum [c1, c2])]
   \<and> double_sum [Num 3, Num 4] = Num 7"
proof -
  have keys: "k \<noteq> [] \<and> is_upper_string k \<and> toUpperCase k = k"
    if "k \<in> set (Map_keys (buildStateSummary data))" for k
  proof -
    have "k \<in> {c \<in> code_of ` set data. c \<noteq> []}"
      using that accumulate_keys_set [of data] by (simp add: keys_buildStateSummary)
    then obtain d where "k = code_of d" "k \<noteq> []" by auto
    then show ?thesis
      by (simp add: code_of_def is_upper_toUpperCase toUpperCase_idem)
  qed
  have a: "list_all (\<lambda>k. k \<noteq> [] \<and> is_upper_string k \<and> toUpperCase k = k)
     (Map_keys (buildStateSummary data))"
    using keys by (simp add: list_all_iff)
  have b: "distinct (Map_keys (buildStateSummary data))"
    by (simp add: keys_buildStateSummary accumulate_keys_distinct)
  have c: "buildStateSummary (filter (\<lambda>d. \<not> no_state d) data) = buildStateSummary data"
    by (simp add: buildStateSummary_def foldl_accumulate_drop)
  have d: "buildStateSummary (map raise_state data) = buildStateSummary data"
    by (simp add: buildStateSummary_def foldl_accumulate_raise)
  have e: "map (\<lambda>(k, s). (k, totalCount s))
        (buildStateSummary
          [\<lparr>state = Some ''ca'', year_month = ym1, year = y1,
            count_accidents = c1, avg_severity = s1\<rparr>,
           \<lparr>state = Some ''CA'', year_month = ym2, year = y2,
            count_accidents = c2, avg_severity = s2\<rparr>])
      = [(''CA'', double_sum [c1, c2])]"
    by (simp add: buildStateSummary_def accumulate_def finish_def code_of_def toUpperCase_def
        upper_char_def Map_get_def Let_def double_sum_def)
  have f: "double_sum [Num 3, Num 4] = Num 7"
    by (simp add: double_sum_def to_double_numeral)
  show ?thesis using a b c d e f get_buildStateSummary [of data code] by blast
qed

subsection \<open>The extent and the scale of finite values\<close>

lemma extent_snoc: "extent (vs @ [v]) = extent_step (extent vs) v"
  by (simp add: extent_def)

lemma extent_Num:
  "extent (map Num xs) =
     (if xs = [] then None else Some (Num (Min (set xs)), Num (Max (set xs))))"
proof (induction xs rule: rev_induct)
  case Nil
  show ?case by (simp add: extent_def)
next
  case (snoc x xs)
  show ?case
  proof (cases "xs = []")
    case True
    then show ?thesis by (simp add: extent_def num_ge_def num_le_def)
  next
    case False
    then have "extent (map Num xs) = Some (Num (Min (set xs)), Num (Max (set xs)))"
      using snoc by simp
    moreover have "Min (set (xs @ [x])) = min x (Min (set xs))"
      using False by simp
    moreover have "Max (set (xs @ [x])) = max x (Max (set xs))"
      using False by simp
    ultimately show ?thesis
      using extent_snoc [of "map Num xs" "Num x"]
      by (auto simp: num_gt_def min_def max_def)
  qed
qed

lemma finite_values:
  "list_all (\<lambda>s. isFinite (f s)) ss \<Longrightarrow> map f ss = map Num (map (\<lambda>s. real_of (f s)) ss)"
proof (induction ss)
  case Nil
  show ?case by simp
next
  case (Cons s ss)
  then obtain x where "f s = Num x" by (cases "f s") auto
  then show ?case using Cons by simp
qed

lemma or_zero_finite: "isFinite v \<Longrightarrow> or_zero v = v"
  by (cases v) (simp_all add: or_zero_def)

lemma Min_le_Max_list: "xs \<noteq> [] \<Longrightarrow> Min (set xs) \<le> Max (set xs)"
  by (metis List.finite_set Max_ge Min_le last_in_set order_trans)

lemma updateLegend_severity:
  "currentMetric g \<noteq> ''count'' \<Longrightarrow>
   legend_min (updateLegend g) = Some (Format ''.2f'' (fst (legendRange g)))
   \<and> legend_max (updateLegend g) = Some (Format ''.2f'' (snd (legendRange g)))"
  by (simp add: updateLegend_def Let_def)

lemma currentMetric_updateColorScale: "currentMetric (updateColorScale g) = currentMetric g"
  by (simp add: updateColorScale_def Let_def)

lemma extent_empty: "extent [] = None"
  by (simp add: extent_def)

lemma extent_finite_values:
  assumes "list_all (\<lambda>s. isFinite (f s)) ss" and "ss \<noteq> []"
  shows "extent (map f ss) =
     Some (Num (Min (set (map (\<lambda>s. real_of (f s)) ss))),
           Num (Max (set (map (\<lambda>s. real_of (f s)) ss))))"
proof -
  have v: "map f ss = map Num (map (\<lambda>s. real_of (f s)) ss)"
    using assms(1) by (rule finite_values)
  have n: "map (\<lambda>s. real_of (f s)) ss \<noteq> []" using assms(2) by simp
  show ?thesis unfolding v extent_Num using n by (simp only: if_False)
qed

lemma updateColorScale_count:
  assumes "currentMetric g = ''count''"
    and "list_all (\<lambda>s. isFinite (totalCount s)) (Map_values (stateSummary g))"
  shows "scale_domain (updateColorScale g) =
      Some (if stateSummary g = [] then (Num 0, Num 1)
            else (Num (Min (set (count_values g))),
                  if Max (set (count_values g)) = Min (set (count_values g))
                  then to_double (Min (set (count_values g)) + 1)
                  else Num (Max (set (count_values g)))))"
    and "legendRange (updateColorScale g) =
      (if stateSummary g = [] then (Num 0, Num 1)
       else (Num (Min (set (count_values g))), Num (Max (set (count_values g)))))"
proof -
  have e: "extent (map totalCount (Map_values (stateSummary g))) =
        Some (Num (Min (set (count_values g))), Num (Max (set (count_values g))))"
    if "stateSummary g \<noteq> []"
    using extent_finite_values [OF assms(2)] that by (simp add: count_values_def Map_values_def)
  show "scale_domain (updateColorScale g) =
      Some (if stateSummary g = [] then (Num 0, Num 1)
            else (Num (Min (set (count_values g))),
                  if Max (set (count_values g)) = Min (set (count_values g))
                  then to_double (Min (set (count_values g)) + 1)
                  else Num (Max (set (count_values g)))))"
  proof (cases "stateSummary g = []")
    case True
    then show ?thesis using assms(1)
      by (simp add: updateColorScale_def scale_domain_def extent_def Map_values_def
          finite_or_def Let_def)
  next
    case False
    then show ?thesis using assms(1) e [OF False]
      by (simp add: updateColorScale_def scale_domain_def finite_or_def Let_def)
  qed
  show "legendRange (updateColorScale g) =
      (if stateSummary g = [] then (Num 0, Num 1)
       else (Num (Min (set (count_values g))), Num (Max (set (count_values g)))))"
  proof (cases "stateSummary g = []")
    case True
    then show ?thesis using assms(1)
      by (simp add: updateColorScale_def extent_def Map_values_def finite_or_def Let_def)
  next
    case False
    then show ?thesis using assms(1) e [OF False]
      by (simp add: updateColorScale_def finite_or_def Let_def)
  qed
qed

lemma updateColorScale_severity:
  assumes "currentMetric g \<noteq> ''count''"
    and "list_all (\<lambda>s. isFinite (avgSeverity s)) (Map_values (stateSummary g))"
  shows "scale_domain (updateColorScale g) =
      Some (if stateSummary g = [] then padded_domain 0 1
            else padded_domain (Min (set (severity_values g))) (Max (set (severity_values g))))"
    and "legendRange (updateColorScale g) =
      (if stateSummary g = [] then (Num 0, Num 1)
       else (Num (Min (set (severity_values g))), Num (Max (set (severity_values g)))))"
proof -
  have m: "map (\<lambda>d. or_zero (avgSeverity d)) (Map_values (stateSummary g))
      = map avgSeverity (Map_values (stateSummary g))"
    using assms(2) by (simp add: list_all_iff or_zero_finite)
  have e: "extent (map (\<lambda>d. or_zero (avgSeverity d)) (Map_values (stateSummary g))) =
        Some (Num (Min (set (severity_values g))), Num (Max (set (severity_values g))))"
    if "stateSummary g \<noteq> []"
    unfolding m
    using extent_finite_values [OF assms(2)] that
    by (simp add: severity_values_def Map_values_def)
  show "scale_domain (updateColorScale g) =
      Some (if stateSummary g = [] then padded_domain 0 1
            else padded_domain (Min (set (severity_values g))) (Max (set (severity_values g))))"
  proof (cases "stateSummary g = []")
    case True
    then show ?thesis using assms(1)
      by (simp add: updateColorScale_def scale_domain_def extent_def Map_values_def
          finite_or_def Let_def padded_domain_def)
  next
    case False
    then show ?thesis using assms(1) e [OF False]
      by (simp add: updateColorScale_def scale_domain_def finite_or_def Let_def
          padded_domain_def)
  qed
  show "legendRange (updateColorScale g) =
      (if stateSummary g = [] then (Num 0, Num 1)
       else (Num (Min (set (severity_values g))), Num (Max (set (severity_values g)))))"
  proof (cases "stateSummary g = []")
    case True
    then show ?thesis using assms(1)
      by (simp add: updateColorScale_def extent_def Map_values_def finite_or_def Let_def)
  next
    case False
    then show ?thesis using assms(1) e [OF False]
      by (simp add: updateColorScale_def finite_or_def Let_def)
  qed
qed

lemma stateSummary_on_loaded: "stateSummary (on_loaded data geo g) = buildStateSummary data"
  by (simp add: on_loaded_def initMap_def updateLegend_def updateColorScale_def
      updateMetricDescription_def Let_def)

lemma currentMetric_on_loaded: "currentMetric (on_loaded data geo g) = currentMetric g"
  by (simp add: on_loaded_def initMap_def updateLegend_def updateColorScale_def
      updateMetricDescription_def Let_def)

lemma dbl_5_2: "to_double (5 / 2) = Num (5 / 2)"
  using to_double_exact [of 5 "- 1"] by (simp add: power_int_minus)

lemma dbl_1_10: "to_double (1 / 10) = Num (3602879701896397 / 36028797018963968)"
  using to_double_eval [of "1 / 10" "- 4" 7205759403792794]
  by (simp add: round_even_def power_int_minus)

lemma dbl_49_20: "to_double (49 / 20) = Num (2758454771764429 / 1125899906842624)"
  using to_double_eval [of "49 / 20" 1 5516909543528858]
  by (simp add: round_even_def power_int_minus)

lemma dbl_51_20: "to_double (51 / 20) = Num (2871044762448691 / 1125899906842624)"
  using to_double_eval [of "51 / 20" 1 5742089524897382]
  by (simp add: round_even_def power_int_minus)

lemma dbl_12_5: "to_double (12 / 5) = Num (5404319552844595 / 2251799813685248)"
  using to_double_eval [of "12 / 5" 1 5404319552844595]
  by (simp add: round_even_def power_int_minus)

lemma dbl_13_5: "to_double (13 / 5) = Num (5854679515581645 / 2251799813685248)"
  using to_double_eval [of "13 / 5" 1 5854679515581645]
  by (simp add: round_even_def power_int_minus)

text \<open>2.5 - 0.05 and 2.5 + 0.05 in double arithmetic.\<close>

lemma dbl_flat_lo:
  "to_double (5 / 2 - 3602879701896397 / 72057594037927936)
     = Num (2758454771764429 / 1125899906842624)"
  using to_double_eval [of "5 / 2 - 3602879701896397 / 72057594037927936" 1 5516909543528858]
  by (simp add: round_even_def power_int_minus)

lemma dbl_flat_hi:
  "to_double (5 / 2 + 3602879701896397 / 72057594037927936)
     = Num (2871044762448691 / 1125899906842624)"
  using to_double_eval [of "5 / 2 + 3602879701896397 / 72057594037927936" 1 5742089524897382]
  by (simp add: round_even_def power_int_minus)

lemma padded_flat:
  "padded_domain (5 / 2) (5 / 2) = (to_double (49 / 20), to_double (51 / 20))"
  using dbl_flat_lo dbl_flat_hi
  by (simp add: padded_domain_def dbl_1_20 dbl_49_20 dbl_51_20 num_sub_def num_le_def Let_def)

lemma flat_summary:
  "buildStateSummary flat_data =
     [(''TX'', \<lparr>totalCount = Num 10, avgSeverity = Num (5 / 2)\<rparr>),
      (''CA'', \<lparr>totalCount = Num 30, avgSeverity = Num (5 / 2)\<rparr>)]"
  by (simp add: flat_data_def buildStateSummary_def accumulate_def finish_def code_of_def
      toUpperCase_def upper_char_def Map_get_def num_gt_def Let_def to_double_numeral
      to_double_0 dbl_5_2)

lemma empty_summary: "buildStateSummary [] = []"
  by (simp add: buildStateSummary_def)

lemma texas_summary:
  "buildStateSummary (take 2 sample_data) =
     [(''TX'', \<lparr>totalCount = Num 150, avgSeverity = to_double (8 / 3)\<rparr>)]"
  by (simp add: sample_data_def buildStateSummary_def accumulate_def finish_def code_of_def
      toUpperCase_def upper_char_def Map_get_def num_gt_def Let_def to_double_numeral
      to_double_0)

lemma big_summary:
  "buildStateSummary big_data = [(''TX'', \<lparr>totalCount = Num (2 ^ 53), avgSeverity = Num 1\<rparr>)]"
  using dbl_2_53 to_double_1
  by (simp add: big_data_def buildStateSummary_def accumulate_def finish_def code_of_def
      toUpperCase_def upper_char_def Map_get_def num_gt_def Let_def)

lemma mixed_summary:
  "buildStateSummary mixed_data =
     [(''TX'', \<lparr>totalCount = Num 1, avgSeverity = Num 2\<rparr>),
      (''CA'', \<lparr>totalCount = Num (2 ^ 1023), avgSeverity = PInf\<rparr>)]"
  using dbl_2_1023 to_double_huge [of "4 * 2 ^ 1023"]
  by (simp add: mixed_data_def buildStateSummary_def accumulate_def finish_def code_of_def
      toUpperCase_def upper_char_def Map_get_def num_gt_def Let_def signed_inf_def
      to_double_numeral to_double_1)

text \<open>
  C5, within the range of exact integers. With the metric count and totals that are
  integers from 0 to below \<open>2^53\<close>, the domain of the colour scale is
  [min(totalCount), max(totalCount)] over the entries of a non-empty summary, with the
  upper bound min + 1 when the minimum and the maximum are equal; for an empty summary
  the extent, and with it the domain and the legend range, is [0, 1]. In each of these
  cases the upper bound of the domain is strictly greater than the lower bound.
\<close>

theorem count_scale_domain:
  assumes "currentMetric g = ''count''"
    and "list_all small_total (Map_values (stateSummary g))"
  shows "scale_domain (updateColorScale g) =
      Some (if stateSummary g = [] then (Num 0, Num 1)
            else (Num (Min (set (count_values g))),
                  Num (if Max (set (count_values g)) = Min (set (count_values g))
                       then Min (set (count_values g)) + 1 else Max (set (count_values g)))))
    \<and> legendRange (updateColorScale g) =
      (if stateSummary g = [] then (Num 0, Num 1)
       else (Num (Min (set (count_values g))), Num (Max (set (count_values g)))))
    \<and> (case scale_domain (updateColorScale g) of
          Some (lo, hi) \<Rightarrow> num_lt lo hi
        | None \<Rightarrow> False)"
proof -
  have f: "list_all (\<lambda>s. isFinite (totalCount s)) (Map_values (stateSummary g))"
    using assms(2) by (simp add: list_all_iff small_total_def is_count_def)
  note d = updateColorScale_count [OF assms(1) f]
  have one: "to_double (Min (set (count_values g)) + 1) = Num (Min (set (count_values g)) + 1)"
    if ne: "stateSummary g \<noteq> []"
  proof -
    have "Min (set (count_values g)) \<in> set (count_values g)"
      using ne by (intro Min_in) (simp_all add: count_values_def Map_values_def)
    then obtain s where s: "s \<in> set (Map_values (stateSummary g))"
        "Min (set (count_values g)) = real_of (totalCount s)"
      by (auto simp: count_values_def)
    have st: "is_count (totalCount s)" "real_of (totalCount s) < 2 ^ 53"
      using assms(2) s(1) by (simp_all add: list_all_iff small_total_def)
    obtain k :: nat where k: "totalCount s = Num (real k)" using st(1) by (rule is_count_nat)
    have "real k < 2 ^ 53" using st(2) k by simp
    then have "k < 2 ^ 53" by (metis of_nat_less_iff of_nat_numeral of_nat_power)
    then have "k + 1 \<le> 2 ^ 53" by simp
    then have "to_double (real (k + 1)) = Num (real (k + 1))" by (rule to_double_nat)
    then show ?thesis using s(2) k by (simp add: add.commute)
  qed
  have dom: "scale_domain (updateColorScale g) =
      Some (if stateSummary g = [] then (Num 0, Num 1)
            else (Num (Min (set (count_values g))),
                  Num (if Max (set (count_values g)) = Min (set (count_values g))
                       then Min (set (count_values g)) + 1 else Max (set (count_values g)))))"
    using d(1) one by auto
  have "Min (set (count_values g)) \<le> Max (set (count_values g))" if "stateSummary g \<noteq> []"
    using that by (intro Min_le_Max_list) (simp add: count_values_def Map_values_def)
  then have "case scale_domain (updateColorScale g) of
          Some (lo, hi) \<Rightarrow> num_lt lo hi
        | None \<Rightarrow> False"
    unfolding dom by auto
  then show ?thesis using dom d(2) by blast
qed

theorem count_scale_domain_witness:
  "currentMetric (on_loaded sample_data [] initial_globals) = ''count''
   \<and> list_all small_total (Map_values (stateSummary (on_loaded sample_data [] initial_globals)))
   \<and> scale_domain (updateColorScale (on_loaded sample_data [] initial_globals))
       = Some (Num 0, Num 150)
   \<and> legendRange (updateColorScale (on_loaded sample_data [] initial_globals))
       = (Num 0, Num 150)
   \<and> scale_domain (updateColorScale (on_loaded flat_data [] initial_globals))
       = Some (Num 10, Num 30)
   \<and> scale_domain (updateColorScale (on_loaded (take 2 sample_data) [] initial_globals))
       = Some (Num 150, Num 151)
   \<and> scale_domain (updateColorScale (on_loaded [] [] initial_globals)) = Some (Num 0, Num 1)"
proof -
  have m: "currentMetric (on_loaded data [] initial_globals) = ''count''" for data
    by (simp add: currentMetric_on_loaded initial_globals_def)
  have f: "list_all small_total (Map_values (stateSummary (on_loaded sample_data [] initial_globals)))"
    by (simp add: stateSummary_on_loaded sample_summary Map_values_def small_total_def
        is_count_def)
  have f2: "list_all small_total (Map_values (stateSummary (on_loaded flat_data [] initial_globals)))"
    by (simp add: stateSummary_on_loaded flat_summary Map_values_def small_total_def
        is_count_def)
  have f3: "list_all small_total (Map_values (stateSummary (on_loaded [] [] initial_globals)))"
    by (simp add: stateSummary_on_loaded empty_summary Map_values_def)
  have f4: "list_all small_total
        (Map_values (stateSummary (on_loaded (take 2 sample_data) [] initial_globals)))"
    by (simp add: stateSummary_on_loaded texas_summary Map_values_def small_total_def
        is_count_def)
  show ?thesis
    using m f count_scale_domain [OF m f] count_scale_domain [OF m f2]
      count_scale_domain [OF m f3] count_scale_domain [OF m f4]
    by (simp add: count_values_def stateSummary_on_loaded sample_summary flat_summary
        texas_summary empty_summary Map_values_def)
qed

text \<open>
  C5, as the specification states it, fails at \<open>2^53\<close>: for the one total \<open>2^53\<close> the sum
  min + 1 rounds back to \<open>2^53\<close>, and the domain is [\<open>2^53\<close>, \<open>2^53\<close>], its upper bound
  not above the lower.
\<close>

theorem count_scale_domain_counterexample:
  "currentMetric (on_loaded big_data [] initial_globals) = ''count''
   \<and> list_all (\<lambda>s. is_count (totalCount s))
        (Map_values (stateSummary (on_loaded big_data [] initial_globals)))
   \<and> scale_domain (updateColorScale (on_loaded big_data [] initial_globals))
       = Some (Num (2 ^ 53), Num (2 ^ 53))"
proof -
  have t: "to_double (2 ^ 53 + 1) = Num (2 ^ 53)"
    using to_double_eval [of "2 ^ 53 + 1" 53 4503599627370496]
    by (simp add: round_even_def)
  have d: "scale_domain (updateColorScale (on_loaded big_data [] initial_globals))
       = Some (Num (2 ^ 53), Num (2 ^ 53))"
    using t
    by (simp add: scale_domain_def updateColorScale_def stateSummary_on_loaded big_summary
        currentMetric_on_loaded initial_globals_def Map_values_def extent_def num_ge_def
        num_le_def num_gt_def finite_or_def Let_def)
  show ?thesis
    using d
    by (simp add: currentMetric_on_loaded initial_globals_def stateSummary_on_loaded
        big_summary Map_values_def is_count_def)
qed

lemma dbl_p_exact:
  "to_double (3602879701896397 / 72057594037927936) = Num (3602879701896397 / 72057594037927936)"
  using to_double_exact [of 3602879701896397 "- 56"] by (simp add: power_int_minus)

lemma to_double_minus: "to_double (- x) = num_neg (to_double x)"
  by (simp add: to_double_def round_double_minus Let_def)

text \<open>8/3 + 0.05, 2 - 0.05, 1 + 0.05 and 1.95 + 0.1 in double arithmetic.\<close>

lemma dbl_sample_hi:
  "to_double (6004799503160661 / 2251799813685248 + 3602879701896397 / 72057594037927936)
     = Num (6117389493844923 / 2251799813685248)"
  using to_double_eval [of "6004799503160661 / 2251799813685248
      + 3602879701896397 / 72057594037927936" 1 6117389493844923]
  by (simp add: round_even_def power_int_minus)

lemma dbl_mixed_lo:
  "to_double (2 - 3602879701896397 / 72057594037927936)
     = Num (8782019273372467 / 4503599627370496)"
  using to_double_eval [of "2 - 3602879701896397 / 72057594037927936" 0 8782019273372467]
  by (simp add: round_even_def power_int_minus)

lemma dbl_mixed_hi0:
  "to_double (1 + 3602879701896397 / 72057594037927936)
     = Num (4728779608739021 / 4503599627370496)"
  using to_double_eval [of "1 + 3602879701896397 / 72057594037927936" 0 4728779608739021]
  by (simp add: round_even_def power_int_minus)

lemma dbl_mixed_forced:
  "to_double (8782019273372467 / 4503599627370496 + 3602879701896397 / 36028797018963968)
     = Num (2308094809027379 / 1125899906842624)"
  using to_double_eval [of "8782019273372467 / 4503599627370496
      + 3602879701896397 / 36028797018963968" 1 4616189618054758]
  by (simp add: round_even_def power_int_minus)

text \<open>Around \<open>2^60\<close> the doubles are 256 apart (128 below), so the padding is lost.\<close>

lemma dbl_far_lo:
  "to_double (2 ^ 60 - 3602879701896397 / 72057594037927936) = Num (2 ^ 60)"
  using to_double_eval [of "2 ^ 60 - 3602879701896397 / 72057594037927936" 59 9007199254740992]
  by (simp add: round_even_def power_int_minus)

lemma dbl_far_hi:
  "to_double (2 ^ 60 + 3602879701896397 / 72057594037927936) = Num (2 ^ 60)"
  using to_double_eval [of "2 ^ 60 + 3602879701896397 / 72057594037927936" 60 4503599627370496]
  by (simp add: round_even_def power_int_minus)

lemma dbl_far_forced:
  "to_double (2 ^ 60 + 3602879701896397 / 36028797018963968) = Num (2 ^ 60)"
  using to_double_eval [of "2 ^ 60 + 3602879701896397 / 36028797018963968" 60 4503599627370496]
  by (simp add: round_even_def power_int_minus)

lemma padded_far: "padded_domain (2 ^ 60) (2 ^ 60) = (Num (2 ^ 60), Num (2 ^ 60))"
  using dbl_far_lo dbl_far_hi dbl_far_forced
  by (simp add: padded_domain_def dbl_1_20 dbl_1_10 num_sub_def num_le_def Let_def)

lemma padded_sample:
  "padded_domain 0 (6004799503160661 / 2251799813685248)
     = (Num (- (3602879701896397 / 72057594037927936)),
        Num (6117389493844923 / 2251799813685248))"
  using dbl_sample_hi to_double_minus [of "3602879701896397 / 72057594037927936"]
  by (simp add: padded_domain_def dbl_1_20 dbl_p_exact num_sub_def num_le_def Let_def)

text \<open>
  C6, for finite averages. With the metric severity and a non-empty summary whose
  averages are all finite, the domain of the colour scale is
  [min(avgSeverity) - 0.05, max(avgSeverity) + 0.05] in double arithmetic, with the
  upper bound forced to the padded minimum + 0.1 when the padded maximum is not above
  the padded minimum (as happens for averages so large that the padding is rounded
  away); for an empty summary the extent is [0, 1] and the domain is padded from it.
  The legend range is the unpadded pair of the minimum and the maximum, and the legend
  shows it with the format \<open>.2f\<close>.
\<close>

theorem severity_scale_domain:
  assumes "currentMetric g = ''severity''"
    and "list_all (\<lambda>s. isFinite (avgSeverity s)) (Map_values (stateSummary g))"
  shows "scale_domain (updateColorScale g) =
      Some (if stateSummary g = [] then padded_domain 0 1
            else padded_domain (Min (set (severity_values g))) (Max (set (severity_values g))))
    \<and> legendRange (updateColorScale g) =
      (if stateSummary g = [] then (Num 0, Num 1)
       else (Num (Min (set (severity_values g))), Num (Max (set (severity_values g)))))
    \<and> legend_min (updateMapColors g) = Some (Format ''.2f'' (fst (legendRange (updateColorScale g))))
    \<and> legend_max (updateMapColors g) = Some (Format ''.2f'' (snd (legendRange (updateColorScale g))))"
proof -
  have m: "currentMetric g \<noteq> ''count''" using assms(1) by simp
  note d = updateColorScale_severity [OF m assms(2)]
  have "currentMetric (updateColorScale g) \<noteq> ''count''"
    using m by (simp add: currentMetric_updateColorScale)
  then have l: "legend_min (updateMapColors g) = Some (Format ''.2f'' (fst (legendRange (updateColorScale g))))
    \<and> legend_max (updateMapColors g) = Some (Format ''.2f'' (snd (legendRange (updateColorScale g))))"
    unfolding updateMapColors_def by (rule updateLegend_severity)
  show ?thesis using d l by blast
qed

theorem severity_scale_domain_witness:
  "currentMetric ((on_loaded sample_data [] initial_globals)\<lparr>currentMetric := ''severity''\<rparr>)
     = ''severity''
   \<and> list_all (\<lambda>s. isFinite (avgSeverity s))
        (Map_values (stateSummary
          ((on_loaded sample_data [] initial_globals)\<lparr>currentMetric := ''severity''\<rparr>)))
   \<and> scale_domain (updateColorScale
        ((on_loaded sample_data [] initial_globals)\<lparr>currentMetric := ''severity''\<rparr>))
       = Some (Num (- (3602879701896397 / 72057594037927936)),
               Num (6117389493844923 / 2251799813685248))
   \<and> legendRange (updateColorScale
        ((on_loaded sample_data [] initial_globals)\<lparr>currentMetric := ''severity''\<rparr>))
       = (Num 0, Num (6004799503160661 / 2251799813685248))
   \<and> currentMetric far_page = ''severity''
   \<and> list_all (\<lambda>s. isFinite (avgSeverity s)) (Map_values (stateSummary far_page))
   \<and> scale_domain (updateColorScale far_page) = Some (Num (2 ^ 60), Num (2 ^ 60))
   \<and> legendRange (updateColorScale far_page) = (Num (2 ^ 60), Num (2 ^ 60))"
proof -
  let ?g = "(on_loaded sample_data [] initial_globals)\<lparr>currentMetric := ''severity''\<rparr>"
  have m: "currentMetric ?g = ''severity''" by simp
  have f: "list_all (\<lambda>s. isFinite (avgSeverity s)) (Map_values (stateSummary ?g))"
    by (simp add: stateSummary_on_loaded sample_summary dbl_8_3 Map_values_def)
  have v: "severity_values ?g = [6004799503160661 / 2251799813685248, 0]"
    by (simp add: severity_values_def stateSummary_on_loaded sample_summary dbl_8_3
        Map_values_def)
  have n: "stateSummary ?g \<noteq> []" by (simp add: stateSummary_on_loaded sample_summary)
  have m2: "currentMetric far_page = ''severity''" by (simp add: far_page_def)
  have f2: "list_all (\<lambda>s. isFinite (avgSeverity s)) (Map_values (stateSummary far_page))"
    by (simp add: far_page_def Map_values_def)
  have v2: "severity_values far_page = [2 ^ 60]"
    by (simp add: severity_values_def far_page_def Map_values_def)
  have n2: "stateSummary far_page \<noteq> []" by (simp add: far_page_def)
  have s1: "scale_domain (updateColorScale ?g)
       = Some (Num (- (3602879701896397 / 72057594037927936)),
               Num (6117389493844923 / 2251799813685248))"
    and l1: "legendRange (updateColorScale ?g) = (Num 0, Num (6004799503160661 / 2251799813685248))"
    using severity_scale_domain [OF m f] n padded_sample unfolding v by simp_all
  have s2: "scale_domain (updateColorScale far_page) = Some (Num (2 ^ 60), Num (2 ^ 60))"
    and l2: "legendRange (updateColorScale far_page) = (Num (2 ^ 60), Num (2 ^ 60))"
    using severity_scale_domain [OF m2 f2] n2 padded_far unfolding v2 by simp_all
  show ?thesis using m f m2 f2 s1 l1 s2 l2 by blast
qed

text \<open>
  C6, as the specification states it, fails when an average is not finite: the rows of
  \<open>mixed_data\<close> are within the data model and give the averages 2 and Infinity; the
  legend range is then (2, 1) and not the observed (2, Infinity), and the domain is
  [1.95, 2.05], its upper bound forced, and not [1.95, Infinity].
\<close>

theorem severity_scale_domain_counterexample:
  "list_all ranged_record mixed_data
   \<and> map avgSeverity (Map_values (stateSummary (on_loaded mixed_data [] initial_globals)))
       = [Num 2, PInf]
   \<and> legendRange (updateColorScale
        ((on_loaded mixed_data [] initial_globals)\<lparr>currentMetric := ''severity''\<rparr>))
       = (Num 2, Num 1)
   \<and> scale_domain (updateColorScale
        ((on_loaded mixed_data [] initial_globals)\<lparr>currentMetric := ''severity''\<rparr>))
       = Some (Num (8782019273372467 / 4503599627370496),
               Num (2308094809027379 / 1125899906842624))"
proof -
  let ?g = "(on_loaded mixed_data [] initial_globals)\<lparr>currentMetric := ''severity''\<rparr>"
  have r: "list_all ranged_record mixed_data"
    by (simp add: mixed_data_def ranged_record_def is_count_def)
  have a: "map avgSeverity (Map_values (stateSummary (on_loaded mixed_data [] initial_globals)))
       = [Num 2, PInf]"
    by (simp add: stateSummary_on_loaded mixed_summary Map_values_def)
  have e: "extent (map (\<lambda>d. or_zero (avgSeverity d))
        (Map_values (stateSummary (on_loaded mixed_data [] initial_globals))))
      = Some (Num 2, PInf)"
    by (simp add: stateSummary_on_loaded mixed_summary Map_values_def extent_def or_zero_def
        num_ge_def num_le_def num_gt_def)
  have l: "legendRange (updateColorScale ?g) = (Num 2, Num 1)"
    by (simp add: updateColorScale_def e finite_or_def Let_def)
  have d: "scale_domain (updateColorScale ?g)
       = Some (Num (8782019273372467 / 4503599627370496),
               Num (2308094809027379 / 1125899906842624))"
    using dbl_mixed_lo dbl_mixed_hi0 dbl_mixed_forced
    by (simp add: scale_domain_def updateColorScale_def e finite_or_def Let_def dbl_1_20
        dbl_1_10 num_sub_def num_le_def)
  show ?thesis using r a l d by blast
qed

text \<open>
  C4, as the script computes it. For a summary whose minimum and maximum average
  severity are both 2.5, the domain of the severity scale is [2.45, 2.55] (the doubles
  of these two literals): the padding is 0.05 on each side, and the forced span of 0.1
  does not apply because the padded maximum is above the padded minimum. The legend
  range is the unpadded [2.5, 2.5], and the legend shows both ends with the format
  \<open>.2f\<close>.
\<close>

theorem severity_flat_domain:
  assumes "currentMetric g = ''severity''"
    and "stateSummary g \<noteq> []"
    and "list_all (\<lambda>s. isFinite (avgSeverity s)) (Map_values (stateSummary g))"
    and "Min (set (severity_values g)) = 5 / 2"
    and "Max (set (severity_values g)) = 5 / 2"
  shows "scale_domain (updateColorScale g) = Some (to_double (49 / 20), to_double (51 / 20))
    \<and> to_double (49 / 20) = Num (2758454771764429 / 1125899906842624)
    \<and> to_double (51 / 20) = Num (2871044762448691 / 1125899906842624)
    \<and> legendRange (updateColorScale g) = (Num (5 / 2), Num (5 / 2))
    \<and> legend_min (updateMapColors g) = Some (Format ''.2f'' (Num (5 / 2)))
    \<and> legend_max (updateMapColors g) = Some (Format ''.2f'' (Num (5 / 2)))"
proof -
  have m: "currentMetric g \<noteq> ''count''" using assms(1) by simp
  note d = updateColorScale_severity [OF m assms(3)]
  have r: "legendRange (updateColorScale g) = (Num (5 / 2), Num (5 / 2))"
    using d(2) assms by simp
  have "currentMetric (updateColorScale g) \<noteq> ''count''"
    using m by (simp add: currentMetric_updateColorScale)
  then have l: "legend_min (updateMapColors g) = Some (Format ''.2f'' (fst (legendRange (updateColorScale g))))
    \<and> legend_max (updateMapColors g) = Some (Format ''.2f'' (snd (legendRange (updateColorScale g))))"
    unfolding updateMapColors_def by (rule updateLegend_severity)
  have "scale_domain (updateColorScale g) = Some (to_double (49 / 20), to_double (51 / 20))"
    using d(1) assms(2,4,5) by (simp add: padded_flat)
  then show ?thesis using r l by (simp add: dbl_49_20 dbl_51_20)
qed

theorem severity_flat_domain_witness:
  "currentMetric ((on_loaded flat_data [] initial_globals)\<lparr>currentMetric := ''severity''\<rparr>)
     = ''severity''
   \<and> stateSummary ((on_loaded flat_data [] initial_globals)\<lparr>currentMetric := ''severity''\<rparr>)
       \<noteq> []
   \<and> list_all (\<lambda>s. isFinite (avgSeverity s))
        (Map_values (stateSummary
          ((on_loaded flat_data [] initial_globals)\<lparr>currentMetric := ''severity''\<rparr>)))
   \<and> Min (set (severity_values
          ((on_loaded flat_data [] initial_globals)\<lparr>currentMetric := ''severity''\<rparr>))) = 5 / 2
   \<and> Max (set (severity_values
          ((on_loaded flat_data [] initial_globals)\<lparr>currentMetric := ''severity''\<rparr>))) = 5 / 2
   \<and> scale_domain (updateColorScale
        ((on_loaded flat_data [] initial_globals)\<lparr>currentMetric := ''severity''\<rparr>))
       = Some (Num (2758454771764429 / 1125899906842624),
               Num (2871044762448691 / 1125899906842624))
   \<and> legend_min (updateMapColors
        ((on_loaded flat_data [] initial_globals)\<lparr>currentMetric := ''severity''\<rparr>))
       = Some (Format ''.2f'' (Num (5 / 2)))"
proof -
  let ?g = "(on_loaded flat_data [] initial_globals)\<lparr>currentMetric := ''severity''\<rparr>"
  have m: "currentMetric ?g = ''severity''" by simp
  have n: "stateSummary ?g \<noteq> []"
    by (simp add: stateSummary_on_loaded flat_summary)
  have f: "list_all (\<lambda>s. isFinite (avgSeverity s)) (Map_values (stateSummary ?g))"
    by (simp add: stateSummary_on_loaded flat_summary Map_values_def)
  have v: "severity_values ?g = [5 / 2, 5 / 2]"
    by (simp add: severity_values_def stateSummary_on_loaded flat_summary Map_values_def)
  have lo: "Min (set (severity_values ?g)) = 5 / 2" unfolding v by simp
  have hi: "Max (set (severity_values ?g)) = 5 / 2" unfolding v by simp
  show ?thesis
    using m n f lo hi severity_flat_domain [OF m n f lo hi] by simp
qed

text \<open>
  C4, as the specification states it, fails: for the sample page with the average 2.5 in
  every state the domain of the severity scale is [2.45, 2.55] and not [2.4, 2.6].
\<close>

theorem severity_flat_domain_counterexample:
  "Min (set (severity_values (on_loaded flat_data [] initial_globals))) = 5 / 2
   \<and> Max (set (severity_values (on_loaded flat_data [] initial_globals))) = 5 / 2
   \<and> scale_domain (updateColorScale
        ((on_loaded flat_data [] initial_globals)\<lparr>currentMetric := ''severity''\<rparr>))
       = Some (to_double (49 / 20), to_double (51 / 20))
   \<and> scale_domain (updateColorScale
        ((on_loaded flat_data [] initial_globals)\<lparr>currentMetric := ''severity''\<rparr>))
       \<noteq> Some (to_double (24 / 10), to_double (26 / 10))"
proof -
  have v: "severity_values (on_loaded flat_data [] initial_globals) = [5 / 2, 5 / 2]"
    by (simp add: severity_values_def stateSummary_on_loaded flat_summary Map_values_def)
  have d: "scale_domain (updateColorScale
        ((on_loaded flat_data [] initial_globals)\<lparr>currentMetric := ''severity''\<rparr>))
       = Some (to_double (49 / 20), to_double (51 / 20))"
    using dbl_flat_lo dbl_flat_hi
    by (simp add: scale_domain_def updateColorScale_def stateSummary_on_loaded flat_summary
        Map_values_def extent_def or_zero_def num_ge_def num_le_def num_gt_def finite_or_def
        num_sub_def Let_def dbl_1_20 dbl_49_20 dbl_51_20)
  show ?thesis unfolding d v by (simp add: dbl_49_20 dbl_51_20 dbl_12_5 dbl_13_5)
qed

lemma string_or_undefined_not_Number: "\<not> is_Number (string_or_undefined v)"
  by (cases v) (simp_all add: string_or_undefined_def)

lemma to_number_samples:
  "to_number (Some ''2016'') = Num 2016"
  "to_number (Some ''100'') = Num 100"
  "to_number (Some ''2.5'') = Num (5 / 2)"
  by (simp_all add: to_number_def string_to_number_def trim_def is_space_def signed_literal_def
      decimal_literal_def is_digit_def digit_of_def digits_value_def exponent_part_def
      to_double_numeral dbl_5_2)

lemma filter_eq_index: "i < n \<Longrightarrow> filter (\<lambda>j. j = i) [0..<n] = [i]"
proof (induction n)
  case 0
  then show ?case by simp
next
  case (Suc n)
  show ?case
  proof (cases "i = n")
    case True
    have "filter (\<lambda>j. j = n) [0..<n] = []"
      by (simp add: filter_empty_conv)
    then show ?thesis using True by simp
  next
    case False
    then have "i < n" using Suc.prems by simp
    then show ?thesis using Suc.IH False by simp
  qed
qed

lemma on_click_no_code:
  "extractStateCode (datum (paths g ! i)) = [] \<Longrightarrow> on_click i g = g"
  by (simp add: on_click_def)

lemma on_click_code:
  assumes "extractStateCode (datum (paths g ! i)) \<noteq> []"
  shows "on_click i g =
     g\<lparr>selectedState := extractStateCode (datum (paths g ! i)),
       paths := (map (\<lambda>p. p\<lparr>selected := False\<rparr>) (paths g))
                  [i := (map (\<lambda>p. p\<lparr>selected := False\<rparr>) (paths g) ! i)\<lparr>selected := True\<rparr>]\<rparr>"
  using assms by (simp add: on_click_def Let_def)

lemma selected_paths_on_click:
  assumes "i < length (paths g)" and "extractStateCode (datum (paths g ! i)) \<noteq> []"
  shows "selected_paths (on_click i g) = [i]"
proof -
  let ?ps = "(map (\<lambda>p. p\<lparr>selected := False\<rparr>) (paths g))
                  [i := (map (\<lambda>p. p\<lparr>selected := False\<rparr>) (paths g) ! i)\<lparr>selected := True\<rparr>]"
  have p: "paths (on_click i g) = ?ps"
    by (simp add: on_click_code [OF assms(2)])
  have n: "length ?ps = length (paths g)" by simp
  have "selected (?ps ! j) = (j = i)" if "j < length (paths g)" for j
    using that assms(1) by (cases "j = i") simp_all
  then have "filter (\<lambda>j. selected (?ps ! j)) [0..<length (paths g)]
      = filter (\<lambda>j. j = i) [0..<length (paths g)]"
    by (intro filter_cong) simp_all
  then show ?thesis
    unfolding selected_paths_def p n using filter_eq_index [OF assms(1)] by simp
qed

lemma selectedState_initMap: "selectedState (initMap g) = selectedState g"
  by (simp add: initMap_def updateLegend_def updateColorScale_def Let_def)

lemma selectedState_on_loaded:
  "selectedState (on_loaded data geo g) =
     (if Map_has (buildStateSummary data) (selectedState g) then selectedState g
      else case Map_keys (buildStateSummary data) of
             [] \<Rightarrow> ''CA''
           | k # ks \<Rightarrow> if k \<noteq> [] then k else ''CA'')"
  by (simp add: on_loaded_def selectedState_initMap updateMetricDescription_def Let_def
      split: list.splits)

lemma first_key_nonempty: "Map_keys (buildStateSummary data) = k # ks \<Longrightarrow> k \<noteq> []"
proof -
  assume a: "Map_keys (buildStateSummary data) = k # ks"
  have "k \<in> set (map fst (foldl accumulate [] data))"
    using a by (simp add: keys_buildStateSummary)
  then have "k \<in> {c \<in> code_of ` set data. c \<noteq> []}"
    by (simp only: accumulate_keys_set)
  then show "k \<noteq> []" by simp
qed

lemma selectedState_on_metric_change: "selectedState (on_metric_change v g) = selectedState g"
  by (simp add: on_metric_change_def updateMapColors_def updateLegend_def updateColorScale_def
      updateMetricDescription_def Let_def)

lemma paths_on_loaded:
  "paths (on_loaded data geo g) =
     map (\<lambda>d. \<lparr>datum = d, selected = (extractStateCode d = selectedState (on_loaded data geo g))\<rparr>) geo"
  by (simp add: on_loaded_def initMap_def updateLegend_def updateColorScale_def
      updateMetricDescription_def Let_def comp_def)

lemma sample_codes: "map extractStateCode sample_features = [''TX'', [], ''CA'', []]"
  by (simp add: sample_features_def extractStateCode_def is_code_candidate_def trim_def
      is_space_def)

subsection \<open>The row parser\<close>

text \<open>
  C7, as the script does it. For every row, the parser returns a record of five fields by
  a fixed conversion of each: exactly three of them, \<open>year\<close>, \<open>count_accidents\<close> and
  \<open>avg_severity\<close>, are coerced to numbers by the unary plus applied to the field's text,
  and two, \<open>state\<close> and \<open>year_month\<close>, are kept as they are (strings, when the row has
  the column).
\<close>

theorem parser_fields:
  "numeric_properties (stateMonthParserFn d) = [''year'', ''count_accidents'', ''avg_severity'']
   \<and> year (stateMonthParserFn d) = to_number (d ''year'')
   \<and> count_accidents (stateMonthParserFn d) = to_number (d ''count_accidents'')
   \<and> avg_severity (stateMonthParserFn d) = to_number (d ''avg_severity'')
   \<and> state (stateMonthParserFn d) = d ''state''
   \<and> year_month (stateMonthParserFn d) = d ''year_month''
   \<and> string_properties (stateMonthParserFn d)
       = filter (\<lambda>k. d k \<noteq> None) [''state'', ''year_month'']"
  by (cases "d ''state''"; cases "d ''year_month''")
     (simp_all add: numeric_properties_def string_properties_def own_properties_def
        stateMonthParserFn_def string_or_undefined_def)

theorem parser_fields_witness:
  "stateMonthParserFn sample_row =
     \<lparr>state = Some ''TX'', year_month = Some ''2016-01'', year = Num 2016,
      count_accidents = Num 100, avg_severity = Num (5 / 2)\<rparr>
   \<and> numeric_properties (stateMonthParserFn sample_row)
       = [''year'', ''count_accidents'', ''avg_severity'']
   \<and> string_properties (stateMonthParserFn sample_row) = [''state'', ''year_month'']"
  using parser_fields [of sample_row]
  by (simp add: sample_row_def stateMonthParserFn_def to_number_samples)

text \<open>
  C7, as the specification states it, fails: the parsed sample row has three fields
  that are numbers, not two.
\<close>

theorem parser_fields_counterexample:
  "length (numeric_properties (stateMonthParserFn sample_row)) = 3
   \<and> length (numeric_properties (stateMonthParserFn sample_row)) \<noteq> 2"
  by (simp add: numeric_properties_def own_properties_def string_or_undefined_not_Number)

subsection \<open>Selection\<close>

text \<open>
  C8. A click on a path of the map whose feature has a non-empty state code makes that
  code the selected state and leaves the class \<open>selected\<close> on the clicked path and on
  no other; the paths keep their features. A click on a path whose feature has no state
  code changes nothing: the selected state and the selected paths stay as they were.
\<close>

theorem click_selects:
  assumes "i < length (paths g)"
  shows "if extractStateCode (datum (paths g ! i)) = [] then on_click i g = g
         else selectedState (on_click i g) = extractStateCode (datum (paths g ! i))
              \<and> selected_paths (on_click i g) = [i]
              \<and> map datum (paths (on_click i g)) = map datum (paths g)"
proof (cases "extractStateCode (datum (paths g ! i)) = []")
  case True
  then show ?thesis by (simp add: on_click_no_code)
next
  case False
  have "map datum (paths (on_click i g)) = map datum (paths g)"
    using assms
    by (simp add: on_click_code [OF False] map_update comp_def list_update_same_conv)
  then show ?thesis
    using False selected_paths_on_click [OF assms False]
    by (simp add: on_click_code [OF False])
qed

theorem click_selects_witness:
  "0 < length (paths (on_loaded sample_data sample_features initial_globals))
   \<and> selectedState (on_click 0 (on_loaded sample_data sample_features initial_globals)) = ''TX''
   \<and> selected_paths (on_click 0 (on_loaded sample_data sample_features initial_globals)) = [0]
   \<and> 1 < length (paths (on_loaded sample_data sample_features initial_globals))
   \<and> on_click 1 (on_loaded sample_data sample_features initial_globals)
       = on_loaded sample_data sample_features initial_globals"
proof -
  let ?page = "on_loaded sample_data sample_features initial_globals"
  have n: "length (paths ?page) = 4"
    by (simp add: paths_on_loaded sample_features_def)
  have d: "map datum (paths ?page) = sample_features"
    by (simp add: paths_on_loaded comp_def)
  have c: "map (\<lambda>p. extractStateCode (datum p)) (paths ?page) = [''TX'', [], ''CA'', []]"
  proof -
    have "map (\<lambda>p. extractStateCode (datum p)) (paths ?page)
        = map extractStateCode (map datum (paths ?page))"
      by (simp add: comp_def)
    then show ?thesis unfolding d sample_codes .
  qed
  have c0: "extractStateCode (datum (paths ?page ! 0)) = ''TX''"
    using arg_cong [OF c, of "\<lambda>l. l ! 0"] n by simp
  have c1: "extractStateCode (datum (paths ?page ! 1)) = []"
    using arg_cong [OF c, of "\<lambda>l. l ! 1"] n by simp
  have i0: "0 < length (paths ?page)" using n by simp
  have i1: "1 < length (paths ?page)" using n by simp
  show ?thesis
    using i0 i1 click_selects [OF i0] click_selects [OF i1] c0 c1 by simp
qed

text \<open>
  C9, as the script does it. After the summary is built at startup, the selected state
  is CA if CA is a key of the summary; otherwise it is the first key of the summary if
  the summary has a key, and CA if the summary is empty. A change of the metric leaves
  the selected state as it was.
\<close>

theorem initial_selection:
  "selectedState (on_loaded data geo initial_globals) =
     (if Map_has (buildStateSummary data) ''CA'' then ''CA''
      else case Map_keys (buildStateSummary data) of
             [] \<Rightarrow> ''CA''
           | k # ks \<Rightarrow> k)
   \<and> stateSummary (on_loaded data geo initial_globals) = buildStateSummary data
   \<and> selectedState (startup rows geo) =
     (if Map_has (stateSummary (startup rows geo)) ''CA'' then ''CA''
      else case Map_keys (stateSummary (startup rows geo)) of
             [] \<Rightarrow> ''CA''
           | k # ks \<Rightarrow> k)
   \<and> selectedState (on_metric_change v g) = selectedState g"
proof -
  have s: "selectedState (on_loaded d geo initial_globals) =
     (if Map_has (buildStateSummary d) ''CA'' then ''CA''
      else case Map_keys (buildStateSummary d) of
             [] \<Rightarrow> ''CA''
           | k # ks \<Rightarrow> k)" for d
    using first_key_nonempty [of d]
    by (simp add: selectedState_on_loaded initial_globals_def split: list.splits)
  show ?thesis
    using s [of data] s [of "map stateMonthParserFn rows"]
    by (simp add: startup_def stateSummary_on_loaded selectedState_on_metric_change)
qed

theorem initial_selection_witness:
  "selectedState (on_loaded sample_data sample_features initial_globals) = ''CA''
   \<and> selectedState (on_loaded (take 2 sample_data) sample_features initial_globals) = ''TX''
   \<and> selectedState (on_loaded [] sample_features initial_globals) = ''CA''"
  using initial_selection [of sample_data sample_features]
    initial_selection [of "take 2 sample_data" sample_features]
    initial_selection [of "[]" sample_features]
  by (simp add: sample_summary texas_summary empty_summary Map_has_def Map_keys_def)

text \<open>
  C9, as the specification states it, fails at startup without rows: CA is no key of the
  summary, the summary has no first key, and the selected state is CA.
\<close>

theorem initial_selection_counterexample:
  "\<not> Map_has (stateSummary (startup [] [])) ''CA''
   \<and> Map_keys (stateSummary (startup [] [])) = []
   \<and> selectedState (startup [] []) = ''CA''"
  by (simp add: startup_def stateSummary_on_loaded selectedState_on_loaded empty_summary
      Map_has_def Map_keys_def initial_globals_def)

end
